theory Spec2Isabelle
  imports Main "HOL-Library.Sublist"
begin

section \<open>JavaScript values used by the bot\<close>

text \<open>
  Strings are lists of characters. The two non-ASCII characters of the setup texts are
  written as their UTF-8 bytes.

  A JavaScript number that holds a chat identifier is either \<open>NaN\<close> (what
  \<open>parseInt\<close> yields when it finds no digit) or an integer. \<open>Num n\<close> with
  \<open>\<bar>n\<bar>\<close> above \<open>2^53 - 1\<close> stands for the double nearest to \<open>n\<close>.
\<close>

datatype js_number = NaN | Num int

text \<open>
  An exception. \<open>Error msg\<close> is \<open>new Error(msg)\<close>, or an exception of the
  runtime's that carries the message \<open>msg\<close>. \<open>TypeError\<close> is the engine's exception
  for a property read on \<open>undefined\<close> and \<open>SyntaxError\<close> the one of \<open>JSON.parse\<close>;
  the messages of these two ("Cannot read property ...", "Unexpected token ...") do not
  begin with \<open>invalid\<close>.
\<close>

datatype error = Error string | TypeError | SyntaxError

definition message_startsWith_invalid :: "error \<Rightarrow> bool" where
  "message_startsWith_invalid e =
     (case e of Error msg \<Rightarrow> prefix ''invalid'' msg | TypeError \<Rightarrow> False | SyntaxError \<Rightarrow> False)"

subsection \<open>Number to string\<close>

definition digit_char :: "nat \<Rightarrow> char" where
  "digit_char d = ''0123456789'' ! d"

function decimal :: "nat \<Rightarrow> string" where
  "decimal n = (if n < 10 then [digit_char n] else decimal (n div 10) @ [digit_char (n mod 10)])"
  by pat_completeness auto
termination
  by (relation "measure (\<lambda>n. n)") auto

declare decimal.simps [simp del]

definition MAX_SAFE_INTEGER :: int where
  "MAX_SAFE_INTEGER = 9007199254740991"

subsection \<open>String.prototype.replace with a string pattern\<close>

text \<open>
  \<open>s.replace(pat, repl)\<close> with a string \<open>pat\<close> replaces the first occurrence of
  \<open>pat\<close> only. In the replacement text \<open>$$\<close> stands for a dollar sign, \<open>$&\<close> for the
  matched text, \<open>$`\<close> for the text before the match and \<open>$'\<close> for the text after it;
  a string pattern has no capture groups, so every other \<open>$\<close> is literal.
\<close>

fun find_first :: "string \<Rightarrow> string \<Rightarrow> (string \<times> string) option" where
  "find_first pat [] = (if pat = [] then Some ([], []) else None)"
| "find_first pat (c # cs) =
     (if prefix pat (c # cs) then Some ([], drop (length pat) (c # cs))
      else (case find_first pat cs of
              None \<Rightarrow> None
            | Some (pre, post) \<Rightarrow> Some (c # pre, post)))"

fun get_substitution :: "string \<Rightarrow> string \<Rightarrow> string \<Rightarrow> string \<Rightarrow> string" where
  "get_substitution matched pre post [] = []"
| "get_substitution matched pre post [c] = [c]"
| "get_substitution matched pre post (c # d # r) =
     (if c = CHR ''$'' \<and> d = CHR ''$'' then CHR ''$'' # get_substitution matched pre post r
      else if c = CHR ''$'' \<and> d = CHR ''&'' then matched @ get_substitution matched pre post r
      else if c = CHR ''$'' \<and> d = CHR ''`'' then pre @ get_substitution matched pre post r
      else if c = CHR ''$'' \<and> d = CHR 0x27 then post @ get_substitution matched pre post r
      else c # get_substitution matched pre post (d # r))"

definition js_replace :: "string \<Rightarrow> string \<Rightarrow> string \<Rightarrow> string" where
  "js_replace s pat repl =
     (case find_first pat s of
        None \<Rightarrow> s
      | Some (pre, post) \<Rightarrow> pre @ get_substitution pat pre post repl @ post)"

subsection \<open>slice, split, join, parseInt\<close>

definition js_slice :: "string \<Rightarrow> int \<Rightarrow> int \<Rightarrow> string" where
  "js_slice s start stop =
     (let len = int (length s);
          lo = (if start < 0 then max (len + start) 0 else min start len);
          hi = (if stop < 0 then max (len + stop) 0 else min stop len)
      in take (nat (hi - lo)) (drop (nat lo) s))"

fun split_on :: "char \<Rightarrow> string \<Rightarrow> string list" where
  "split_on sep [] = [[]]"
| "split_on sep (c # cs) =
     (if c = sep then [] # split_on sep cs
      else (case split_on sep cs of [] \<Rightarrow> [[c]] | p # ps \<Rightarrow> (c # p) # ps))"

fun join :: "string \<Rightarrow> string list \<Rightarrow> string" where
  "join sep [] = []"
| "join sep [x] = x"
| "join sep (x # y # ys) = x @ sep @ join sep (y # ys)"

definition is_whitespace :: "char \<Rightarrow> bool" where
  "is_whitespace c = (c \<in> set [CHR '' '', CHR 0x09, CHR 0x0A, CHR 0x0B, CHR 0x0C, CHR 0x0D])"

definition is_digit :: "char \<Rightarrow> bool" where
  "is_digit c = (c \<in> set ''0123456789'')"

definition digit_value :: "char \<Rightarrow> int" where
  "digit_value c = int (of_char c) - 48"

definition digits_value :: "string \<Rightarrow> int" where
  "digits_value ds = foldl (\<lambda>a c. 10 * a + digit_value c) 0 ds"

text \<open>
  \<open>parseInt(s, 10)\<close>: leading white space is skipped, one sign is read, then the longest
  run of decimal digits; whatever follows is ignored, and no digit at all gives \<open>NaN\<close>.
  With the radix 10 given, no \<open>0x\<close> prefix is read. Of the white space of the language
  the ASCII characters are modelled; a path segment holds none of the others unescaped.
\<close>

definition parseInt :: "string \<Rightarrow> js_number" where
  "parseInt s =
     (let t = dropWhile is_whitespace s;
          negative = (t \<noteq> [] \<and> hd t = CHR ''-'');
          u = (if t \<noteq> [] \<and> (hd t = CHR ''-'' \<or> hd t = CHR ''+'') then tl t else t);
          ds = takeWhile is_digit u
      in if ds = [] then NaN
         else Num ((if negative then - 1 else 1) * digits_value ds))"

section \<open>The data of the program\<close>

record Options =
  telegramToken :: string
  telegramSecret :: string
  secret :: string
  baseURL :: string
  listen :: string

record Params =
  silent :: bool

record GitHubUser =
  login :: string
  avatar_url :: string
  user_html_url :: string

record GitHubRepository =
  repo_name :: string
  full_name :: string
  repo_private :: bool
  owner :: GitHubUser
  repo_html_url :: string
  branches_url :: string
  repo_url :: string

record GitHubCommitAuthor =
  author_name :: string
  email :: string
  username :: string

record GitHubCommit =
  commit_id :: string
  commit_message :: string
  timestamp :: string
  commit_url :: string
  author :: GitHubCommitAuthor
  added :: "string list"
  removed :: "string list"
  modified :: "string list"

record GitHubEventPing =
  zen :: string
  hook_id :: int

record GitHubEventPush =
  ref :: string
  sender :: GitHubUser
  repository :: GitHubRepository
  commits :: "GitHubCommit list"
  compare :: string
  forced :: bool

text \<open>
  The parsed body of a repository event: an object of the shape of \<open>GitHubEventPing\<close>,
  one of the shape of \<open>GitHubEventPush\<close>, or an object with the fields of neither.
\<close>

datatype github_data = PingData GitHubEventPing | PushData GitHubEventPush | OtherData

record TelegramUser =
  user_id :: int
  is_bot :: bool
  user_first_name :: string
  user_last_name :: "string option"
  user_username :: "string option"
  language_code :: "string option"

record TelegramChat =
  chat_id :: js_number
  chat_type :: string
  title :: "string option"
  chat_username :: "string option"
  chat_first_name :: "string option"
  chat_last_name :: "string option"

record TelegramMessageEntity =
  entity_type :: string
  entity_offset :: int
  entity_length :: int

record TelegramMessage =
  message_id :: int
  msg_from :: "TelegramUser option"
  date :: int
  chat :: TelegramChat
  msg_text :: "string option"
  entities :: "TelegramMessageEntity list option"

record TelegramCallbackQuery =
  cq_id :: int
  cq_message :: "TelegramMessage option"
  cq_data :: "string option"

record TelegramUpdate =
  update_id :: int
  message :: "TelegramMessage option"
  callback_query :: "TelegramCallbackQuery option"

record TelegramInlineKeyboardButton =
  button_text :: string
  callback_data :: "string option"

record TelegramInlineKeyboardMarkup =
  inline_keyboard :: "TelegramInlineKeyboardButton list list"

text \<open>
  The object literals the bot builds: an inline reply, or the body of an outbound call.
  A key the literal does not have is \<open>None\<close>. \<open>TelegramActionSendMessage\<close> of the
  source is this record without \<open>act_method\<close>, \<open>act_message_id\<close> and \<open>act_url\<close>.
\<close>

record TelegramAction =
  act_method :: "string option"
  act_chat_id :: "js_number option"
  act_message_id :: "int option"
  act_text :: "string option"
  parse_mode :: "string option"
  disable_web_page_preview :: "bool option"
  disable_notification :: "bool option"
  reply_markup :: "TelegramInlineKeyboardMarkup option"
  act_url :: "string option"

definition empty_object :: TelegramAction where
  "empty_object =
     \<lparr>act_method = None, act_chat_id = None, act_message_id = None, act_text = None,
      parse_mode = None, disable_web_page_preview = None, disable_notification = None,
      reply_markup = None, act_url = None\<rparr>"

text \<open>\<open>{...a, ...b}\<close>: a key of \<open>b\<close> overrides the same key of \<open>a\<close>.\<close>

definition override :: "'a option \<Rightarrow> 'a option \<Rightarrow> 'a option" where
  "override a b = (case b of None \<Rightarrow> a | Some v \<Rightarrow> Some v)"

definition spread :: "TelegramAction \<Rightarrow> TelegramAction \<Rightarrow> TelegramAction" where
  "spread a b =
     \<lparr>act_method = override (act_method a) (act_method b),
      act_chat_id = override (act_chat_id a) (act_chat_id b),
      act_message_id = override (act_message_id a) (act_message_id b),
      act_text = override (act_text a) (act_text b),
      parse_mode = override (parse_mode a) (parse_mode b),
      disable_web_page_preview = override (disable_web_page_preview a) (disable_web_page_preview b),
      disable_notification = override (disable_notification a) (disable_notification b),
      reply_markup = override (reply_markup a) (reply_markup b),
      act_url = override (act_url a) (act_url b)\<rparr>"

section \<open>What the program does not define\<close>

text \<open>
  The outcome of \<open>fetch\<close> followed by \<open>res.ok\<close>, \<open>res.text()\<close> and \<open>res.json()\<close>:
  an exception with a message (the network failed), a response that is not ok with its
  body text, an ok response whose body is not JSON, or an ok response with a JSON body.
\<close>

datatype fetch_result = FetchThrows string | ResponseNotOk string | ResponseOkNotJSON | ResponseOk

type_synonym outbound_call = "string \<times> TelegramAction"

text \<open>
  The parts the bot takes from its libraries and from the network:
  \<^item> \<open>hmac_sha1_base64 key data\<close> is \<open>hmac("sha1", key, data, "utf8", "base64")\<close>;
  \<^item> \<open>number_beyond_safe n\<close> is the text of the double nearest to \<open>n\<close>, for an integer
    outside the safe range (there the digits are rounded or an exponent is printed);
  \<^item> \<open>inherited_member_call name data\<close> is what calling the member \<open>name\<close> that an object
    literal inherits from \<open>Object.prototype\<close> returns, as a text, or the exception it
    throws;
  \<^item> \<open>fetch url body\<close> is the chat platform's answer to a POST of \<open>body\<close> to \<open>url\<close>.
\<close>

record runtime =
  hmac_sha1_base64 :: "string \<Rightarrow> string \<Rightarrow> string"
  number_beyond_safe :: "int \<Rightarrow> string"
  inherited_member_call :: "string \<Rightarrow> github_data \<Rightarrow> error + string"
  fetch :: "string \<Rightarrow> TelegramAction \<Rightarrow> fetch_result"

text \<open>The template literal \<open>`${n}`\<close> of a number.\<close>

definition number_toString :: "runtime \<Rightarrow> js_number \<Rightarrow> string" where
  "number_toString rt x =
     (case x of
        NaN \<Rightarrow> ''NaN''
      | Num n \<Rightarrow>
          if \<bar>n\<bar> \<le> MAX_SAFE_INTEGER
          then (if n < 0 then ''-'' @ decimal (nat (- n)) else decimal (nat n))
          else number_beyond_safe rt n)"

section \<open>The event formatters\<close>

definition newline :: string where
  "newline = [CHR 0x0A]"

definition backtick :: string where
  "backtick = [CHR 0x60]"

definition format_ping :: "GitHubEventPing \<Rightarrow> string" where
  "format_ping ping =
     ''You successfully set up GitHub notifications.'' @ newline @ ''GitHub Zen: '' @ zen ping"

definition format_commit :: "GitHubCommit \<Rightarrow> string" where
  "format_commit commit =
     backtick @ js_slice (commit_id commit) 0 7 @ backtick @ '' '' @ commit_message commit
       @ '' - '' @ username (author commit)"

text \<open>The length of an array is below \<open>2^32\<close>, so its text is its decimal numeral.\<close>

definition format_push :: "GitHubEventPush \<Rightarrow> string" where
  "format_push push =
     (let branch = js_replace (ref push) ''refs/heads/'' []
      in ''['' @ login (sender push) @ '']('' @ user_html_url (sender push) @ ''): '' @ newline
         @ ''['' @ decimal (length (commits push)) @ '' new commit''
         @ (if length (commits push) = 1 then [] else ''s'')
         @ '']('' @ compare push @ '') '' @ (if forced push then ''force-'' else [])
         @ ''pushed to ['' @ backtick @ branch @ backtick @ ''](''
         @ js_replace (branches_url (repository push)) ''{/branch}'' (''/'' @ branch) @ '')'' @ newline
         @ join newline (map format_commit (commits push)) @ newline
         @ ''[_'' @ full_name (repository push) @ ''_]('' @ repo_html_url (repository push) @ '')'')"

text \<open>
  The table \<open>githubEventFormatters\<close> applied to the parsed body. The body is not
  validated: the ping formatter prints \<open>undefined\<close> for a missing \<open>zen\<close>, and the push
  formatter throws at \<open>push.ref.replace\<close> when there is no \<open>ref\<close>.
\<close>

definition githubEventFormatters :: "string \<Rightarrow> (github_data \<Rightarrow> error + string) option" where
  "githubEventFormatters event =
     (if event = ''ping'' then
        Some (\<lambda>data. case data of
                PingData ping \<Rightarrow> Inr (format_ping ping)
              | _ \<Rightarrow> Inr (''You successfully set up GitHub notifications.'' @ newline
                          @ ''GitHub Zen: undefined''))
      else if event = ''push'' then
        Some (\<lambda>data. case data of
                PushData push \<Rightarrow> Inr (format_push push)
              | _ \<Rightarrow> Inl TypeError)
      else None)"

text \<open>
  The names every object literal inherits from \<open>Object.prototype\<close>: the operator
  \<open>in\<close> finds them too.
\<close>

definition object_prototype_members :: "string list" where
  "object_prototype_members =
     [''constructor'', ''hasOwnProperty'', ''isPrototypeOf'', ''propertyIsEnumerable'',
      ''toLocaleString'', ''toString'', ''valueOf'', ''__proto__'', ''__defineGetter__'',
      ''__defineSetter__'', ''__lookupGetter__'', ''__lookupSetter__'']"

section \<open>The bot\<close>

definition TELEGRAM_API_BASE_URL :: string where
  "TELEGRAM_API_BASE_URL = ''https://api.telegram.org/bot''"

definition safeHMAC :: "runtime \<Rightarrow> Options \<Rightarrow> string \<Rightarrow> string" where
  "safeHMAC rt opts data =
     (let hash = hmac_sha1_base64 rt (secret opts) data
      in js_replace (js_replace (js_replace hash ''+'' ''-'') ''/'' ''_'') ''='' [])"

definition generateWebhookURL :: "runtime \<Rightarrow> Options \<Rightarrow> js_number \<Rightarrow> string" where
  "generateWebhookURL rt opts chatID =
     (let chatToken = safeHMAC rt opts (number_toString rt chatID)
      in baseURL opts @ ''/github/'' @ number_toString rt chatID @ ''/'' @ chatToken)"

definition verifyWebhookURL :: "runtime \<Rightarrow> Options \<Rightarrow> js_number \<Rightarrow> string \<Rightarrow> bool" where
  "verifyWebhookURL rt opts chatID chatToken =
     (safeHMAC rt opts (number_toString rt chatID) = chatToken)"

text \<open>
  A function that may call the chat platform returns its result, or the exception it
  throws, together with the outbound calls it made, in order.
\<close>

definition telegramApi :: "runtime \<Rightarrow> Options \<Rightarrow> string \<Rightarrow> TelegramAction \<Rightarrow> (error + unit) \<times> outbound_call list" where
  "telegramApi rt opts action data =
     (let url = TELEGRAM_API_BASE_URL @ telegramToken opts @ ''/'' @ action
      in (case fetch rt url data of
            FetchThrows msg \<Rightarrow> (Inl (Error msg), [(url, data)])
          | ResponseNotOk err \<Rightarrow> (Inl (Error (''Failure to perform API request: '' @ err)), [(url, data)])
          | ResponseOkNotJSON \<Rightarrow> (Inl SyntaxError, [(url, data)])
          | ResponseOk \<Rightarrow> (Inr (), [(url, data)])))"

text \<open>\<open>req.headers.get\<close> yields \<open>null\<close> for an absent header; as a property key it is the text \<open>null\<close>.\<close>

definition property_key :: "string option \<Rightarrow> string" where
  "property_key event = (case event of None \<Rightarrow> ''null'' | Some e \<Rightarrow> e)"

definition formatEventMessage :: "runtime \<Rightarrow> string option \<Rightarrow> github_data \<Rightarrow> error + TelegramAction" where
  "formatEventMessage rt event data =
     (let result =
        (case githubEventFormatters (property_key event) of
           Some formatter \<Rightarrow> formatter data
         | None \<Rightarrow>
             if property_key event \<in> set object_prototype_members
             then inherited_member_call rt (property_key event) data
             else Inl (Error (''invalid: Event type '' @ [CHR 0x22] @ property_key event @ [CHR 0x22]
                              @ '' is not known'')))
      in (case result of
            Inl e \<Rightarrow> Inl e
          | Inr text \<Rightarrow>
              Inr (empty_object\<lparr>parse_mode := Some ''Markdown'', act_text := Some text,
                                disable_web_page_preview := Some True\<rparr>)))"

definition githubEvent :: "runtime \<Rightarrow> Options \<Rightarrow> js_number \<Rightarrow> string \<Rightarrow> Params \<Rightarrow> string option \<Rightarrow> github_data
    \<Rightarrow> (error + TelegramAction) \<times> outbound_call list" where
  "githubEvent rt opts chatID chatToken params event data =
     (if \<not> verifyWebhookURL rt opts chatID chatToken then (Inl (Error ''invalid: chatToken''), [])
      else (case formatEventMessage rt event data of
              Inl e \<Rightarrow> (Inl e, [])
            | Inr msg \<Rightarrow>
                (case telegramApi rt opts ''sendMessage''
                        (spread (empty_object\<lparr>act_chat_id := Some chatID,
                                               disable_notification := Some (silent params)\<rparr>) msg) of
                   (Inl e, calls) \<Rightarrow> (Inl e, calls)
                 | (Inr _, calls) \<Rightarrow> (Inr empty_object, calls))))"

subsection \<open>The texts of the setup command\<close>

definition dquote :: string where
  "dquote = [CHR 0x22]"

definition quoted :: "string \<Rightarrow> string" where
  "quoted s = dquote @ s @ dquote"

definition arrow :: string where
  "arrow = [CHR 0xE2, CHR 0x86, CHR 0x92]"

definition bullet :: string where
  "bullet = [CHR 0xE2, CHR 0x80, CHR 0xA2]"

definition setup_text_before_url :: string where
  "setup_text_before_url =
     ''*Steps*'' @ newline @ newline
     @ ''1. Open '' @ quoted ''Settings'' @ '' '' @ arrow @ '' '' @ quoted ''Webhooks'' @ '' '' @ arrow
     @ '' '' @ quoted ''Add Webhook'' @ '' in your GitHub repository.'' @ newline
     @ ''2. Paste the following URL as '' @ quoted ''Payload URL'' @ '':'' @ newline"

definition setup_text_after_url :: string where
  "setup_text_after_url =
     newline @ ''3. Under '' @ quoted ''Content-Type'' @ '', choose '' @ quoted ''application/json''
     @ newline @ newline
     @ ''Press '' @ quoted ''Add webhook'' @ '' and you'' @ [CHR 0x27]
     @ ''re done. You can optionally choose specific events to send a message for.''"

definition advanced_text :: string where
  "advanced_text =
     newline @ newline @ ''*Advanced Flags*'' @ newline @ newline
     @ ''Pass these flags as query parameters. For example: <url>?silent'' @ newline @ newline
     @ bullet @ '' '' @ backtick @ ''silent'' @ backtick @ '' - Makes events silent'' @ newline @ newline"

definition formatSetupMessage :: "runtime \<Rightarrow> Options \<Rightarrow> js_number \<Rightarrow> TelegramAction" where
  "formatSetupMessage rt opts chatID =
     (let url = generateWebhookURL rt opts chatID
      in empty_object\<lparr>parse_mode := Some ''Markdown'',
                       act_text := Some (setup_text_before_url @ url @ setup_text_after_url),
                       disable_web_page_preview := Some True\<rparr>)"

definition formatSetupAdvancedMessage :: "runtime \<Rightarrow> Options \<Rightarrow> js_number \<Rightarrow> TelegramAction" where
  "formatSetupAdvancedMessage rt opts chatID =
     (case act_text (formatSetupMessage rt opts chatID) of
        None \<Rightarrow> empty_object\<lparr>parse_mode := Some ''Markdown'',
                              act_text := Some (''undefined'' @ advanced_text),
                              disable_web_page_preview := Some True\<rparr>
      | Some text \<Rightarrow> empty_object\<lparr>parse_mode := Some ''Markdown'',
                                   act_text := Some (text @ advanced_text),
                                   disable_web_page_preview := Some True\<rparr>)"

definition formatUnknownCommandMessage :: "string \<Rightarrow> TelegramAction" where
  "formatUnknownCommandMessage command =
     empty_object\<lparr>act_text := Some (''Oops, I don'' @ [CHR 0x27] @ ''t understand your command '' @ command)\<rparr>"

subsection \<open>Updates from the chat platform\<close>

definition updateMessageSetupAdvanced :: "runtime \<Rightarrow> Options \<Rightarrow> TelegramMessage \<Rightarrow> (error + unit) \<times> outbound_call list" where
  "updateMessageSetupAdvanced rt opts m =
     telegramApi rt opts ''editMessageText''
       (spread (empty_object\<lparr>act_chat_id := Some (chat_id (chat m)),
                              act_message_id := Some (message_id m)\<rparr>)
               (formatSetupAdvancedMessage rt opts (chat_id (chat m))))"

definition answerCallbackQuery :: TelegramAction where
  "answerCallbackQuery = empty_object\<lparr>act_method := Some ''answerCallbackQuery''\<rparr>"

definition advanced_setup_button :: TelegramInlineKeyboardButton where
  "advanced_setup_button =
     \<lparr>button_text = ''Advanced Setup'', callback_data = Some ''updateMessageSetupAdvanced''\<rparr>"

text \<open>
  The result is the inline reply, \<open>None\<close> when the function returns nothing. An empty
  text is falsy, so \<open>!callback_query.data\<close> holds for it as for an absent one. A message
  with an entity and no text throws at \<open>message.text.slice\<close>.
\<close>

definition telegramUpdate :: "runtime \<Rightarrow> Options \<Rightarrow> string \<Rightarrow> TelegramUpdate
    \<Rightarrow> (error + TelegramAction option) \<times> outbound_call list" where
  "telegramUpdate rt opts presented data =
     (if presented \<noteq> telegramSecret opts then (Inl (Error ''invalid: telegramSecret''), [])
      else (case message data of
        Some m \<Rightarrow>
          (case entities m of
             None \<Rightarrow> (Inr None, [])
           | Some [] \<Rightarrow> (Inr None, [])
           | Some (entity # _) \<Rightarrow>
               (case msg_text m of
                  None \<Rightarrow> (Inl TypeError, [])
                | Some text \<Rightarrow>
                    (let firstEntity = js_slice text (entity_offset entity)
                                         (entity_offset entity + entity_length entity);
                         command = hd (split_on (CHR ''@'') firstEntity)
                     in if command = ''/setup'' then
                          (Inr (Some (spread
                             (spread (empty_object\<lparr>act_method := Some ''sendMessage'',
                                                    act_chat_id := Some (chat_id (chat m))\<rparr>)
                                     (formatSetupMessage rt opts (chat_id (chat m))))
                             (empty_object\<lparr>reply_markup :=
                                Some \<lparr>inline_keyboard = [[advanced_setup_button]]\<rparr>\<rparr>))), [])
                        else
                          (Inr (Some (spread
                             (empty_object\<lparr>act_method := Some ''sendMessage'',
                                            act_chat_id := Some (chat_id (chat m))\<rparr>)
                             (formatUnknownCommandMessage command))), []))))
      | None \<Rightarrow>
          (case callback_query data of
             Some cq \<Rightarrow>
               (case cq_message cq of
                  None \<Rightarrow> (Inr None, [])
                | Some m \<Rightarrow>
                    (case cq_data cq of
                       None \<Rightarrow> (Inr None, [])
                     | Some action \<Rightarrow>
                         if action = [] then (Inr None, [])
                         else if action = ''updateMessageSetupAdvanced'' then
                           (case updateMessageSetupAdvanced rt opts m of
                              (Inl e, calls) \<Rightarrow> (Inl e, calls)
                            | (Inr _, calls) \<Rightarrow> (Inr (Some answerCallbackQuery), calls))
                         else (Inr (Some answerCallbackQuery), [])))
           | None \<Rightarrow> (Inr None, []))))"

definition setupTelegramWebhook :: "runtime \<Rightarrow> Options \<Rightarrow> (error + unit) \<times> outbound_call list" where
  "setupTelegramWebhook rt opts =
     telegramApi rt opts ''setWebhook''
       (empty_object\<lparr>act_url := Some (baseURL opts @ ''/telegramUpdate/'' @ telegramSecret opts)\<rparr>)"

section \<open>The router\<close>

text \<open>
  A request as the listener delivers it: the method, the path and the names of the query
  parameters of its parsed URL, the header \<open>X-GitHub-Event\<close>, and the body: a text that is
  not JSON, or the object it parses to, of the shape of a repository event or of an update.
\<close>

datatype request_body = NotJSON | GitHubJSON github_data | TelegramJSON TelegramUpdate

record ServerRequest =
  req_method :: string
  req_pathname :: string
  req_search_names :: "string list"
  x_github_event :: "string option"
  req_body :: request_body

datatype response_body = Plain string | ReplyJSON TelegramAction

record Response =
  status :: nat
  content_type :: "string option"
  body :: response_body

definition respondIfReply :: "TelegramAction option \<Rightarrow> Response" where
  "respondIfReply reply =
     (case reply of
        Some r \<Rightarrow> \<lparr>status = 200, content_type = Some ''application/json'', body = ReplyJSON r\<rparr>
      | None \<Rightarrow> \<lparr>status = 200, content_type = None, body = Plain ''Success''\<rparr>)"

definition serveBadRequest :: Response where
  "serveBadRequest = \<lparr>status = 400, content_type = None, body = Plain ''Bad Request''\<rparr>"

definition serveNotFound :: Response where
  "serveNotFound = \<lparr>status = 404, content_type = None, body = Plain ''Not Found''\<rparr>"

definition serveMethodNotAllowed :: Response where
  "serveMethodNotAllowed = \<lparr>status = 405, content_type = None, body = Plain ''Method Not Allowed''\<rparr>"

definition serveInternalServerError :: Response where
  "serveInternalServerError =
     \<lparr>status = 500, content_type = None, body = Plain ''Unknown Internal Server Error''\<rparr>"

text \<open>
  The body is parsed before the bot is called. An object of the other route's shape has
  none of the fields this route reads.
\<close>

definition serveGitHubWebhook :: "runtime \<Rightarrow> Options \<Rightarrow> ServerRequest \<Rightarrow> string \<times> string
    \<Rightarrow> (error + Response) \<times> outbound_call list" where
  "serveGitHubWebhook rt opts req parts =
     (let chatID = parseInt (fst parts);
          chatToken = snd parts;
          params = \<lparr>silent = (''silent'' \<in> set (req_search_names req))\<rparr>
      in (case req_body req of
            NotJSON \<Rightarrow> (Inl SyntaxError, [])
          | parsed \<Rightarrow>
              (case githubEvent rt opts chatID chatToken params (x_github_event req)
                      (case parsed of GitHubJSON data \<Rightarrow> data | _ \<Rightarrow> OtherData) of
                 (Inl e, calls) \<Rightarrow> (Inl e, calls)
               | (Inr reply, calls) \<Rightarrow> (Inr (respondIfReply (Some reply)), calls))))"

definition serveTelegramWebhook :: "runtime \<Rightarrow> Options \<Rightarrow> ServerRequest \<Rightarrow> string
    \<Rightarrow> (error + Response) \<times> outbound_call list" where
  "serveTelegramWebhook rt opts req part =
     (case req_body req of
        NotJSON \<Rightarrow> (Inl SyntaxError, [])
      | parsed \<Rightarrow>
          (case telegramUpdate rt opts part
                  (case parsed of
                     TelegramJSON data \<Rightarrow> data
                   | _ \<Rightarrow> \<lparr>update_id = 0, message = None, callback_query = None\<rparr>) of
             (Inl e, calls) \<Rightarrow> (Inl e, calls)
           | (Inr reply, calls) \<Rightarrow> (Inr (respondIfReply reply), calls)))"

definition path_parts :: "string \<Rightarrow> string list" where
  "path_parts pathname = filter (\<lambda>part. part \<noteq> []) (split_on (CHR ''/'') pathname)"

definition route :: "runtime \<Rightarrow> Options \<Rightarrow> ServerRequest \<Rightarrow> (error + Response) \<times> outbound_call list" where
  "route rt opts req =
     (let parts = path_parts (req_pathname req)
      in if length parts = 2 \<and> req_method req \<noteq> ''POST'' then (Inr serveMethodNotAllowed, [])
         else if length parts = 2 \<and> parts ! 0 = ''telegramUpdate''
           then serveTelegramWebhook rt opts req (parts ! 1)
         else if length parts = 3 \<and> req_method req \<noteq> ''POST'' then (Inr serveMethodNotAllowed, [])
         else if length parts = 3 \<and> parts ! 0 = ''github''
           then serveGitHubWebhook rt opts req (parts ! 1, parts ! 2)
         else (Inr serveNotFound, []))"

text \<open>The handler of \<open>main\<close>: the response sent, and the outbound calls made on the way.\<close>

definition handler :: "runtime \<Rightarrow> Options \<Rightarrow> ServerRequest \<Rightarrow> Response \<times> outbound_call list" where
  "handler rt opts req =
     (case route rt opts req of
        (Inl e, calls) \<Rightarrow>
          (if message_startsWith_invalid e then serveBadRequest else serveInternalServerError, calls)
      | (Inr response, calls) \<Rightarrow> (response, calls))"

section \<open>Notions of the specification\<close>

text \<open>
  The Signer's \<open>sign(chatID)\<close>: the source writes it inline, as
  \<open>this.safeHMAC(`${chatID}`)\<close>, in \<open>generateWebhookURL\<close> and \<open>verifyWebhookURL\<close>.
\<close>

definition sign :: "runtime \<Rightarrow> Options \<Rightarrow> js_number \<Rightarrow> string" where
  "sign rt opts chatID = safeHMAC rt opts (number_toString rt chatID)"

text \<open>
  The mapping to the URL-safe alphabet as the specification words it, in one pass over
  the base64 text: the first \<open>+\<close> becomes \<open>-\<close>, the first \<open>/\<close> becomes \<open>_\<close>, the first
  \<open>=\<close> is dropped, and every later occurrence is copied. The flags tell which of the
  three has been met already.
\<close>

fun first_occurrence_only :: "bool \<Rightarrow> bool \<Rightarrow> bool \<Rightarrow> string \<Rightarrow> string" where
  "first_occurrence_only seen_plus seen_slash seen_pad [] = []"
| "first_occurrence_only seen_plus seen_slash seen_pad (c # cs) =
     (if c = CHR ''+'' \<and> \<not> seen_plus
        then CHR ''-'' # first_occurrence_only True seen_slash seen_pad cs
      else if c = CHR ''/'' \<and> \<not> seen_slash
        then CHR ''_'' # first_occurrence_only seen_plus True seen_pad cs
      else if c = CHR ''='' \<and> \<not> seen_pad
        then first_occurrence_only seen_plus seen_slash True cs
      else c # first_occurrence_only seen_plus seen_slash seen_pad cs)"

text \<open>Replacing the first occurrence of one character, and doing so unless it is done.\<close>

fun replace_char :: "char \<Rightarrow> string \<Rightarrow> string \<Rightarrow> string" where
  "replace_char a r [] = []"
| "replace_char a r (c # cs) = (if c = a then r @ cs else c # replace_char a r cs)"

fun once :: "bool \<Rightarrow> char \<Rightarrow> string \<Rightarrow> string \<Rightarrow> string" where
  "once True a r xs = xs"
| "once False a r xs = replace_char a r xs"

text \<open>
  A push none of whose texts holds a hyphen, and the test that a hyphen follows an
  \<open>e\<close> somewhere in a text (the character before the text is the first argument).
\<close>

definition no_dash_in_commit :: "GitHubCommit \<Rightarrow> bool" where
  "no_dash_in_commit commit =
     (CHR ''-'' \<notin> set (commit_id commit) \<and> CHR ''-'' \<notin> set (commit_message commit)
      \<and> CHR ''-'' \<notin> set (username (author commit)))"

definition no_dash_in_push :: "GitHubEventPush \<Rightarrow> bool" where
  "no_dash_in_push push =
     (CHR ''-'' \<notin> set (login (sender push)) \<and> CHR ''-'' \<notin> set (user_html_url (sender push))
      \<and> CHR ''-'' \<notin> set (compare push) \<and> CHR ''-'' \<notin> set (ref push)
      \<and> CHR ''-'' \<notin> set (branches_url (repository push))
      \<and> CHR ''-'' \<notin> set (full_name (repository push))
      \<and> CHR ''-'' \<notin> set (repo_html_url (repository push))
      \<and> list_all no_dash_in_commit (commits push))"

fun dash_follows_e :: "char \<Rightarrow> string \<Rightarrow> bool" where
  "dash_follows_e p [] = False"
| "dash_follows_e p (c # cs) = ((p = CHR ''e'' \<and> c = CHR ''-'') \<or> dash_follows_e c cs)"

text \<open>
  The two shapes of a path the router serves, \<open>/telegramUpdate/<secret>\<close> and
  \<open>/github/<chatID>/<token>\<close>, as tests on the parts of the path; and the digits
  \<open>parseInt\<close> reads from a text: those after leading white space and one sign.
\<close>

definition telegram_shape :: "string list \<Rightarrow> bool" where
  "telegram_shape parts = (length parts = 2 \<and> parts ! 0 = ''telegramUpdate'')"

definition github_shape :: "string list \<Rightarrow> bool" where
  "github_shape parts = (length parts = 3 \<and> parts ! 0 = ''github'')"

definition leading_digits :: "string \<Rightarrow> string" where
  "leading_digits s =
     (let t = dropWhile is_whitespace s
      in takeWhile is_digit (if t \<noteq> [] \<and> (hd t = CHR ''-'' \<or> hd t = CHR ''+'') then tl t else t))"

text \<open>
  The body of the outbound call that turns the message \<open>m\<close> into the advanced setup
  text: the object literal of \<open>updateMessageSetupAdvanced\<close>, written out.
\<close>

definition edit_body :: "runtime \<Rightarrow> Options \<Rightarrow> TelegramMessage \<Rightarrow> TelegramAction" where
  "edit_body rt opts m =
     \<lparr>act_method = None, act_chat_id = Some (chat_id (chat m)), act_message_id = Some (message_id m),
      act_text = Some (setup_text_before_url @ generateWebhookURL rt opts (chat_id (chat m))
                       @ setup_text_after_url @ advanced_text),
      parse_mode = Some ''Markdown'', disable_web_page_preview = Some True,
      disable_notification = None, reply_markup = None, act_url = None\<rparr>"

section \<open>Example values\<close>

text \<open>
  A runtime whose HMAC has the values of HMAC-SHA1 under the key \<open>s3cr3t\<close> for the
  texts \<open>42\<close>, \<open>167\<close> and \<open>-1001\<close> (and the value for the text \<open>NaN\<close> everywhere
  else), and whose chat platform accepts every call.
\<close>

definition example_runtime :: runtime where
  "example_runtime =
     \<lparr>hmac_sha1_base64 = (\<lambda>key data.
        if data = ''42'' then ''9ZOd0FvbG+osAB4A4jhzidYn7kc=''
        else if data = ''167'' then ''HLPL+i7pvReQ5dFcgA+E/a/+RWU=''
        else if data = ''-1001'' then ''7afCaDbvNtLG4B2iDaU/0yG3wQI=''
        else ''vX2MDxwYa7hmjdO6ECyYA2Fv+uk=''),
      number_beyond_safe = (\<lambda>n. ''1e+21''),
      inherited_member_call = (\<lambda>name data. Inr ''[object Object]''),
      fetch = (\<lambda>url body. ResponseOk)\<rparr>"

definition example_options :: Options where
  "example_options =
     \<lparr>telegramToken = ''123:abc'', telegramSecret = ''hunter2hunter2'', secret = ''s3cr3t'',
      baseURL = ''https://bot.example'', listen = ''127.0.0.1:8080''\<rparr>"

definition example_user :: GitHubUser where
  "example_user =
     \<lparr>login = ''octocat'', avatar_url = ''https://avatars.example/u/1'',
      user_html_url = ''https://github.com/octocat''\<rparr>"

definition example_repository :: GitHubRepository where
  "example_repository =
     \<lparr>repo_name = ''hello'', full_name = ''octocat/hello'', repo_private = False,
      owner = example_user, repo_html_url = ''https://github.com/octocat/hello'',
      branches_url = ''https://api.github.com/repos/octocat/hello/branches{/branch}'',
      repo_url = ''https://github.com/octocat/hello''\<rparr>"

definition example_commit :: "string \<Rightarrow> string \<Rightarrow> GitHubCommit" where
  "example_commit hash msg =
     \<lparr>commit_id = hash, commit_message = msg, timestamp = ''2020-01-01T00:00:00Z'',
      commit_url = ''https://github.com/octocat/hello/commit/'' @ hash,
      author = \<lparr>author_name = ''The Octocat'', email = ''octocat@github.com'', username = ''octocat''\<rparr>,
      added = [], removed = [], modified = [''README.md'']\<rparr>"

definition push_one_commit :: GitHubEventPush where
  "push_one_commit =
     \<lparr>ref = ''refs/heads/main'', sender = example_user, repository = example_repository,
      commits = [example_commit ''0a1b2c3d4e5f'' ''Fix typo''],
      compare = ''https://github.com/octocat/hello/compare/0a1b2c3...4d5e6f7'', forced = False\<rparr>"

definition push_two_commits_forced :: GitHubEventPush where
  "push_two_commits_forced =
     push_one_commit\<lparr>commits := [example_commit ''0a1b2c3d4e5f'' ''Fix typo'',
                                   example_commit ''4d5e6f708192'' ''Add tests''],
                      forced := True\<rparr>"

definition push_to_force_branch :: GitHubEventPush where
  "push_to_force_branch = push_one_commit\<lparr>ref := ''refs/heads/force-retry''\<rparr>"

definition example_request :: "string \<Rightarrow> string \<Rightarrow> ServerRequest" where
  "example_request method pathname =
     \<lparr>req_method = method, req_pathname = pathname, req_search_names = [],
      x_github_event = Some ''push'', req_body = GitHubJSON (PushData push_one_commit)\<rparr>"

text \<open>
  A private chat, a message in it, a callback query on a message of it, a runtime whose
  chat platform refuses every call, and a request that carries an update.
\<close>

definition example_chat :: TelegramChat where
  "example_chat =
     \<lparr>chat_id = Num 42, chat_type = ''private'', title = None, chat_username = Some ''octocat'',
      chat_first_name = Some ''Mona'', chat_last_name = None\<rparr>"

definition example_message :: "string option \<Rightarrow> TelegramMessageEntity list option \<Rightarrow> TelegramMessage" where
  "example_message text ents =
     \<lparr>message_id = 7, msg_from = None, date = 1577836800, chat = example_chat,
      msg_text = text, entities = ents\<rparr>"

definition bot_command :: "int \<Rightarrow> int \<Rightarrow> TelegramMessageEntity" where
  "bot_command off len = \<lparr>entity_type = ''bot_command'', entity_offset = off, entity_length = len\<rparr>"

definition example_callback :: "string option \<Rightarrow> TelegramCallbackQuery" where
  "example_callback d =
     \<lparr>cq_id = 5, cq_message = Some (example_message (Some ''Steps'') None), cq_data = d\<rparr>"

definition refusing_runtime :: runtime where
  "refusing_runtime =
     example_runtime\<lparr>fetch := (\<lambda>url body. ResponseNotOk ''Bad Request: message is not modified'')\<rparr>"

definition telegram_request :: "string \<Rightarrow> TelegramUpdate \<Rightarrow> ServerRequest" where
  "telegram_request pathname update =
     \<lparr>req_method = ''POST'', req_pathname = pathname, req_search_names = [],
      x_github_event = None, req_body = TelegramJSON update\<rparr>"

text \<open>An update that holds a message and a callback query at once.\<close>

definition update_with_both :: TelegramUpdate where
  "update_with_both =
     \<lparr>update_id = 4,
      message = Some (example_message (Some ''/setup@githubbot'') (Some [bot_command 0 16])),
      callback_query = Some (example_callback (Some ''updateMessageSetupAdvanced''))\<rparr>"

section \<open>Properties of the Signer\<close>

lemma decimal_digit: "n < 10 \<Longrightarrow> decimal n = [digit_char n]"
  by (simp add: decimal.simps [of n])

lemma decimal_digits: "10 \<le> n \<Longrightarrow> decimal n = decimal (n div 10) @ [digit_char (n mod 10)]"
  by (simp add: decimal.simps [of n])

lemma number_toString_42: "number_toString rt (Num 42) = ''42''"
  by (simp add: number_toString_def MAX_SAFE_INTEGER_def decimal_digit decimal_digits digit_char_def)

lemma number_toString_167: "number_toString rt (Num 167) = ''167''"
  by (simp add: number_toString_def MAX_SAFE_INTEGER_def decimal_digit decimal_digits digit_char_def)

lemma get_substitution_plain: "CHR ''$'' \<notin> set r \<Longrightarrow> get_substitution m b a r = r"
  by (induction m b a r rule: get_substitution.induct) auto

lemma js_replace_char: "CHR ''$'' \<notin> set r \<Longrightarrow> js_replace s [a] r = replace_char a r s"
  by (induction s) (auto simp: js_replace_def get_substitution_plain split: option.splits)

lemma first_occurrence_only_once:
  "first_occurrence_only p s e xs =
     once e (CHR ''='') [] (once s (CHR ''/'') ''_'' (once p (CHR ''+'') ''-'' xs))"
proof (induction xs arbitrary: p s e)
  case Nil
  show ?case by (cases p; cases s; cases e; simp)
next
  case (Cons c cs)
  show ?case by (cases p; cases s; cases e; simp add: Cons.IH)
qed

lemma safeHMAC_first_occurrence_only:
  "safeHMAC rt opts data = first_occurrence_only False False False (hmac_sha1_base64 rt (secret opts) data)"
  by (simp add: safeHMAC_def first_occurrence_only_once js_replace_char)

lemma sign_example_42: "sign example_runtime example_options (Num 42) = ''9ZOd0FvbG-osAB4A4jhzidYn7kc''"
  by (simp add: sign_def safeHMAC_first_occurrence_only number_toString_42 example_runtime_def)

lemma sign_example_167: "sign example_runtime example_options (Num 167) = ''HLPL-i7pvReQ5dFcgA+E_a/+RWU''"
  by (simp add: sign_def safeHMAC_first_occurrence_only number_toString_167 example_runtime_def)

lemma verifyWebhookURL_sign: "verifyWebhookURL rt opts chatID token = (token = sign rt opts chatID)"
  by (auto simp: verifyWebhookURL_def sign_def)

lemma example_fetch: "fetch example_runtime url data = ResponseOk"
  by (simp add: example_runtime_def)

lemma example_telegramToken: "telegramToken example_options = ''123:abc''"
  by (simp add: example_options_def)

lemma example_telegramSecret: "telegramSecret example_options = ''hunter2hunter2''"
  by (simp add: example_options_def)

lemma example_baseURL: "baseURL example_options = ''https://bot.example''"
  by (simp add: example_options_def)

lemma generateWebhookURL_sign:
  "generateWebhookURL rt opts chatID =
     baseURL opts @ ''/github/'' @ number_toString rt chatID @ ''/'' @ sign rt opts chatID"
  by (simp add: generateWebhookURL_def sign_def Let_def)

text \<open>
  C1. For every chat identifier and every token, \<open>verifyWebhookURL\<close> returns true if and
  only if the token equals \<open>sign\<close> of the chat identifier: it accepts the signed token and
  rejects every other one.
\<close>

theorem verify_iff_token_is_sign:
  "verifyWebhookURL rt opts chatID token = (token = sign rt opts chatID)
   \<and> verifyWebhookURL rt opts chatID (sign rt opts chatID)
   \<and> (token \<noteq> sign rt opts chatID \<longrightarrow> \<not> verifyWebhookURL rt opts chatID token)"
  by (auto simp: verifyWebhookURL_def sign_def)

theorem verify_iff_token_is_sign_witness:
  "''9ZOd0FvbG+osAB4A4jhzidYn7kc'' \<noteq> sign example_runtime example_options (Num 42)
   \<and> \<not> verifyWebhookURL example_runtime example_options (Num 42) ''9ZOd0FvbG+osAB4A4jhzidYn7kc''
   \<and> verifyWebhookURL example_runtime example_options (Num 42) ''9ZOd0FvbG-osAB4A4jhzidYn7kc''"
  using verify_iff_token_is_sign [of example_runtime example_options "Num 42" "''9ZOd0FvbG+osAB4A4jhzidYn7kc''"]
    verify_iff_token_is_sign [of example_runtime example_options "Num 42" "''9ZOd0FvbG-osAB4A4jhzidYn7kc''"]
  by (simp add: sign_example_42)

text \<open>
  C2. For every chat identifier, the token that \<open>sign\<close> produces is the base64 text of the
  HMAC of the identifier's decimal text in which only the first \<open>+\<close> is replaced by
  \<open>-\<close>, only the first \<open>/\<close> by \<open>_\<close>, and only the first \<open>=\<close> is removed; later
  occurrences stay as they are.
\<close>

theorem sign_replaces_first_occurrence_only:
  "sign rt opts chatID =
     first_occurrence_only False False False
       (hmac_sha1_base64 rt (secret opts) (number_toString rt chatID))"
  by (simp add: sign_def safeHMAC_first_occurrence_only)

theorem sign_replaces_first_occurrence_only_witness:
  "sign example_runtime example_options (Num 167) = ''HLPL-i7pvReQ5dFcgA+E_a/+RWU''
   \<and> hmac_sha1_base64 example_runtime (secret example_options) ''167'' = ''HLPL+i7pvReQ5dFcgA+E/a/+RWU=''"
  using sign_replaces_first_occurrence_only [of example_runtime example_options "Num 167"]
  by (simp add: number_toString_167 example_runtime_def)

section \<open>Properties of the push formatter\<close>

lemma dash_follows_e_append:
  "dash_follows_e p (xs @ ys) = (dash_follows_e p xs \<or> dash_follows_e (last (p # xs)) ys)"
  by (induction xs arbitrary: p) auto

lemma dash_follows_e_no_dash: "CHR ''-'' \<notin> set xs \<Longrightarrow> \<not> dash_follows_e p xs"
  by (induction xs arbitrary: p) auto

lemma sublist_force_dash: "sublist ''force-'' t \<Longrightarrow> dash_follows_e p t"
  by (auto simp: sublist_def dash_follows_e_append)

lemma find_first_split: "find_first pat s = Some (pre, post) \<Longrightarrow> s = pre @ pat @ post"
proof (induction s arbitrary: pre)
  case Nil
  then show ?case by (auto split: if_splits)
next
  case (Cons c cs)
  then show ?case by (auto split: if_splits option.splits simp: prefix_def)
qed


lemma notin_get_substitution:
  "x \<notin> set m \<Longrightarrow> x \<notin> set b \<Longrightarrow> x \<notin> set a \<Longrightarrow> x \<notin> set r
   \<Longrightarrow> x \<notin> set (get_substitution m b a r)"
  by (induction m b a r rule: get_substitution.induct) (simp_all, blast)

lemma notin_js_replace:
  assumes "x \<notin> set s" and "x \<notin> set r"
  shows "x \<notin> set (js_replace s pat r)"
proof (cases "find_first pat s")
  case None
  then show ?thesis using assms by (simp add: js_replace_def)
next
  case (Some pp)
  obtain pre post where pp: "pp = (pre, post)" by (cases pp)
  have s: "s = pre @ pat @ post" using Some pp find_first_split by simp
  have "x \<notin> set pat" "x \<notin> set pre" "x \<notin> set post" using assms(1) s by simp_all
  then have "x \<notin> set (get_substitution pat pre post r)"
    using assms(2) by (simp add: notin_get_substitution)
  then show ?thesis using Some pp s assms(1) by (simp add: js_replace_def)
qed

lemma notin_js_slice: "x \<notin> set s \<Longrightarrow> x \<notin> set (js_slice s a b)"
  by (auto simp: js_slice_def Let_def dest: in_set_takeD in_set_dropD)


lemma decimal_1: "decimal (Suc 0) = ''1''"
  by (simp add: decimal_digit digit_char_def)

lemma decimal_2: "decimal (Suc (Suc 0)) = ''2''"
  by (simp add: decimal_digit digit_char_def)

lemma format_push_one_commit:
  assumes "commits push = [c]" and "\<not> forced push"
  shows "sublist (''[1 new commit]('' @ compare push @ '') pushed to ['') (format_push push)"
proof -
  have eq: "format_push push =
      (''['' @ login (sender push) @ '']('' @ user_html_url (sender push) @ ''): '' @ newline)
      @ (''[1 new commit]('' @ compare push @ '') pushed to ['')
      @ (backtick
         @ js_replace (ref push) ''refs/heads/'' [] @ backtick @ ''](''
         @ js_replace (branches_url (repository push)) ''{/branch}''
               (''/'' @ js_replace (ref push) ''refs/heads/'' []) @ '')'' @ newline
         @ format_commit c @ newline
         @ ''[_'' @ full_name (repository push) @ ''_]('' @ repo_html_url (repository push) @ '')'')"
    using assms by (simp add: format_push_def Let_def decimal_1)
  show ?thesis by (subst eq) (rule sublist_appendI)
qed

lemma format_push_two_commits_forced:
  assumes "commits push = [c1, c2]" and "forced push"
  shows "sublist (''[2 new commits]('' @ compare push @ '') force-pushed to ['') (format_push push)"
proof -
  have eq: "format_push push =
      (''['' @ login (sender push) @ '']('' @ user_html_url (sender push) @ ''): '' @ newline)
      @ (''[2 new commits]('' @ compare push @ '') force-pushed to ['')
      @ (backtick
         @ js_replace (ref push) ''refs/heads/'' [] @ backtick @ ''](''
         @ js_replace (branches_url (repository push)) ''{/branch}''
               (''/'' @ js_replace (ref push) ''refs/heads/'' []) @ '')'' @ newline
         @ format_commit c1 @ newline @ format_commit c2 @ newline
         @ ''[_'' @ full_name (repository push) @ ''_]('' @ repo_html_url (repository push) @ '')'')"
    using assms by (simp add: format_push_def Let_def decimal_2)
  show ?thesis by (subst eq) (rule sublist_appendI)
qed

lemma sublist_of_part: "sublist (a @ x @ b) t \<Longrightarrow> sublist x t"
  by (metis sublist_appendI sublist_order.order_trans)

lemma format_push_no_force:
  assumes "commits push = [c]" and "\<not> forced push" and "no_dash_in_push push"
  shows "\<not> sublist ''force-'' (format_push push)"
proof -
  have "\<not> dash_follows_e (CHR ''x'') (format_push push)"
    using assms
    by (simp add: format_push_def Let_def decimal_1 format_commit_def no_dash_in_push_def
        no_dash_in_commit_def dash_follows_e_append dash_follows_e_no_dash notin_js_replace
        notin_js_slice newline_def backtick_def)
  then show ?thesis using sublist_force_dash by blast
qed


text \<open>
  C3, amended. For every push with exactly one commit that is not forced, the text holds
  \<open>1 new commit\<close> in the singular, the link to the comparison is followed by
  \<open>pushed to\<close> with no \<open>force-\<close> before it, and the text does not hold \<open>force-\<close>
  at all when no text of the payload holds a hyphen. For every forced push with two
  commits the text holds \<open>2 new commits\<close> and \<open>force-\<close>, as the prefix of \<open>pushed\<close>.
\<close>

theorem format_push_count_and_force_prefix:
  "(length (commits push) = 1 \<and> \<not> forced push \<longrightarrow>
      sublist ''1 new commit'' (format_push push)
      \<and> sublist (''[1 new commit]('' @ compare push @ '') pushed to ['') (format_push push)
      \<and> (no_dash_in_push push \<longrightarrow> \<not> sublist ''force-'' (format_push push)))
   \<and> (length (commits push) = 2 \<and> forced push \<longrightarrow>
      sublist ''2 new commits'' (format_push push)
      \<and> sublist ''force-'' (format_push push)
      \<and> sublist (''[2 new commits]('' @ compare push @ '') force-pushed to ['') (format_push push))"
proof (intro conjI impI)
  assume a: "length (commits push) = 1 \<and> \<not> forced push"
  then obtain c where c: "commits push = [c]"
    by (cases "commits push") auto
  have one: "sublist (''['' @ ''1 new commit'' @ '']('' @ compare push @ '') pushed to ['') (format_push push)"
    using format_push_one_commit [OF c] a by simp
  show "sublist ''1 new commit'' (format_push push)"
    using one by (rule sublist_of_part)
  show "sublist (''[1 new commit]('' @ compare push @ '') pushed to ['') (format_push push)"
    using format_push_one_commit [OF c] a by simp
  show "\<not> sublist ''force-'' (format_push push)" if "no_dash_in_push push"
    using format_push_no_force [OF c] a that by simp
next
  assume a: "length (commits push) = 2 \<and> forced push"
  then obtain c1 c2 where c: "commits push = [c1, c2]"
    by (cases "commits push"; cases "tl (commits push)") auto
  have two: "sublist (''['' @ ''2 new commits'' @ '']('' @ compare push @ '') force-pushed to ['') (format_push push)"
    using format_push_two_commits_forced [OF c] a by simp
  have force: "sublist ((''[2 new commits]('' @ compare push @ '') '') @ ''force-'' @ ''pushed to ['') (format_push push)"
    using format_push_two_commits_forced [OF c] a by simp
  show "sublist ''2 new commits'' (format_push push)"
    using two by (rule sublist_of_part)
  show "sublist ''force-'' (format_push push)"
    using force by (rule sublist_of_part)
  show "sublist (''[2 new commits]('' @ compare push @ '') force-pushed to ['') (format_push push)"
    using format_push_two_commits_forced [OF c] a by simp
qed

lemma branch_of_force_branch: "js_replace ''refs/heads/force-retry'' ''refs/heads/'' [] = ''force-retry''"
  by (simp add: js_replace_def)

lemma format_push_names_branch:
  assumes "commits push = [c]" and "\<not> forced push"
  shows "sublist (backtick @ js_replace (ref push) ''refs/heads/'' [] @ backtick) (format_push push)"
proof -
  have eq: "format_push push =
      (''['' @ login (sender push) @ '']('' @ user_html_url (sender push) @ ''): '' @ newline
       @ ''[1 new commit]('' @ compare push @ '') pushed to ['')
      @ (backtick @ js_replace (ref push) ''refs/heads/'' [] @ backtick)
      @ (''](''
         @ js_replace (branches_url (repository push)) ''{/branch}''
               (''/'' @ js_replace (ref push) ''refs/heads/'' []) @ '')'' @ newline
         @ format_commit c @ newline
         @ ''[_'' @ full_name (repository push) @ ''_]('' @ repo_html_url (repository push) @ '')'')"
    using assms by (simp add: format_push_def Let_def decimal_1)
  show ?thesis by (subst eq) (rule sublist_appendI)
qed

text \<open>
  The text of a push that is not forced holds \<open>force-\<close> when the payload brings it:
  here the branch is \<open>force-retry\<close>.
\<close>

theorem format_push_force_counterexample:
  "length (commits push_to_force_branch) = 1 \<and> \<not> forced push_to_force_branch
   \<and> sublist ''force-'' (format_push push_to_force_branch)"
proof -
  have "sublist (backtick @ ''force-'' @ (''retry'' @ backtick)) (format_push push_to_force_branch)"
    using format_push_names_branch [of push_to_force_branch]
    by (simp add: push_to_force_branch_def push_one_commit_def branch_of_force_branch)
  then have "sublist ''force-'' (format_push push_to_force_branch)"
    by (rule sublist_of_part)
  then show ?thesis
    by (simp add: push_to_force_branch_def push_one_commit_def)
qed

theorem format_push_count_and_force_prefix_witness:
  "length (commits push_one_commit) = 1 \<and> \<not> forced push_one_commit \<and> no_dash_in_push push_one_commit
   \<and> sublist ''1 new commit'' (format_push push_one_commit)
   \<and> \<not> sublist ''force-'' (format_push push_one_commit)
   \<and> length (commits push_two_commits_forced) = 2 \<and> forced push_two_commits_forced
   \<and> sublist ''2 new commits'' (format_push push_two_commits_forced)
   \<and> sublist ''force-'' (format_push push_two_commits_forced)"
  using format_push_count_and_force_prefix [of push_one_commit]
    format_push_count_and_force_prefix [of push_two_commits_forced]
  by (simp add: push_one_commit_def push_two_commits_forced_def no_dash_in_push_def
      no_dash_in_commit_def example_commit_def example_user_def example_repository_def)

section \<open>Properties of the repository webhook\<close>

lemma split_on_no_sep: "sep \<notin> set xs \<Longrightarrow> split_on sep xs = [xs]"
  by (induction xs) auto

lemma split_on_append: "sep \<notin> set xs \<Longrightarrow> split_on sep (xs @ sep # ys) = xs # split_on sep ys"
  by (induction xs) auto

lemma path_parts_github:
  assumes "CHR ''/'' \<notin> set a" "a \<noteq> []" "CHR ''/'' \<notin> set t" "t \<noteq> []"
  shows "path_parts (''/github/'' @ a @ ''/'' @ t) = [''github'', a, t]"
proof -
  have "split_on (CHR ''/'') (''/github/'' @ a @ ''/'' @ t) = [[], ''github'', a, t]"
    using assms by (simp add: split_on_append split_on_no_sep)
  then show ?thesis using assms by (simp add: path_parts_def)
qed

lemma parseInt_42: "parseInt ''42'' = Num 42"
  by (simp add: parseInt_def is_whitespace_def is_digit_def digits_value_def digit_value_def)

lemma parseInt_minus_42: "parseInt ''-42'' = Num (- 42)"
  by (simp add: parseInt_def is_whitespace_def is_digit_def digits_value_def digit_value_def)

lemma githubEvent_rejects:
  "chatToken \<noteq> sign rt opts chatID \<Longrightarrow>
     githubEvent rt opts chatID chatToken params event data = (Inl (Error ''invalid: chatToken''), [])"
  by (auto simp: githubEvent_def verifyWebhookURL_def sign_def)

lemma route_github:
  assumes "req_method req = ''POST''" and "path_parts (req_pathname req) = [''github'', s, t]"
  shows "route rt opts req = serveGitHubWebhook rt opts req (s, t)"
  using assms by (simp add: route_def)

text \<open>
  C4. For every chat identifier, token, parameters, event type and payload with a token
  other than \<open>sign\<close> of the chat identifier, \<open>githubEvent\<close> fails with an error whose
  message begins with \<open>invalid\<close>, whatever the event type and the payload are, and makes
  no outbound call; the server answers such a request with status 400.
\<close>

theorem githubEvent_invalid_token:
  assumes "chatToken \<noteq> sign rt opts chatID"
  shows "githubEvent rt opts chatID chatToken params event data = (Inl (Error ''invalid: chatToken''), [])
     \<and> message_startsWith_invalid (Error ''invalid: chatToken'')
     \<and> (req_method req = ''POST'' \<and> path_parts (req_pathname req) = [''github'', s, chatToken]
          \<and> parseInt s = chatID \<and> req_body req \<noteq> NotJSON
        \<longrightarrow> handler rt opts req = (serveBadRequest, []))"
proof (intro conjI impI)
  show "githubEvent rt opts chatID chatToken params event data = (Inl (Error ''invalid: chatToken''), [])"
    using assms by (rule githubEvent_rejects)
  show inv: "message_startsWith_invalid (Error ''invalid: chatToken'')"
    by (simp add: message_startsWith_invalid_def)
  assume h: "req_method req = ''POST'' \<and> path_parts (req_pathname req) = [''github'', s, chatToken]
          \<and> parseInt s = chatID \<and> req_body req \<noteq> NotJSON"
  then have "route rt opts req = serveGitHubWebhook rt opts req (s, chatToken)"
    by (simp add: route_github)
  moreover have "serveGitHubWebhook rt opts req (s, chatToken) = (Inl (Error ''invalid: chatToken''), [])"
    using h githubEvent_rejects [OF assms]
    by (cases "req_body req") (simp_all add: serveGitHubWebhook_def Let_def)
  ultimately show "handler rt opts req = (serveBadRequest, [])"
    using inv by (simp add: handler_def)
qed

theorem githubEvent_invalid_token_witness:
  "''forged'' \<noteq> sign example_runtime example_options (Num 42)
   \<and> githubEvent example_runtime example_options (Num 42) ''forged'' \<lparr>silent = False\<rparr> (Some ''push'')
        (PushData push_one_commit) = (Inl (Error ''invalid: chatToken''), [])
   \<and> handler example_runtime example_options (example_request ''POST'' ''/github/42/forged'')
        = (serveBadRequest, [])"
  using githubEvent_invalid_token [of "''forged''" example_runtime example_options "Num 42"
      "\<lparr>silent = False\<rparr>" "Some ''push''" "PushData push_one_commit"
      "example_request ''POST'' ''/github/42/forged''" "''42''"]
    path_parts_github [of "''42''" "''forged''"]
  by (simp add: sign_example_42 example_request_def parseInt_42)

section \<open>Properties of the router\<close>

lemma route_not_post_2_or_3:
  assumes "req_method req \<noteq> ''POST''"
    and "length (path_parts (req_pathname req)) = 2 \<or> length (path_parts (req_pathname req)) = 3"
  shows "route rt opts req = (Inr serveMethodNotAllowed, [])"
  using assms by (auto simp: route_def Let_def)

lemma route_not_post_other:
  assumes "req_method req \<noteq> ''POST''"
    and "length (path_parts (req_pathname req)) \<noteq> 2" and "length (path_parts (req_pathname req)) \<noteq> 3"
  shows "route rt opts req = (Inr serveNotFound, [])"
  using assms by (simp add: route_def Let_def)

lemma route_post_no_shape:
  assumes "\<not> telegram_shape (path_parts (req_pathname req))"
    and "\<not> github_shape (path_parts (req_pathname req))"
    and "req_method req = ''POST''"
  shows "route rt opts req = (Inr serveNotFound, [])"
  using assms by (auto simp: route_def Let_def telegram_shape_def github_shape_def)

text \<open>
  C5, amended. For every POST request whose path has neither the shape
  \<open>/telegramUpdate/<secret>\<close> nor the shape \<open>/github/<chatID>/<token>\<close> the router
  answers 404. A request whose method is not POST is answered 405 when its path has two
  or three parts, so whenever the path has one of the two shapes, and 404 otherwise.
\<close>

theorem route_not_found_or_method_not_allowed:
  "(req_method req = ''POST'' \<and> \<not> telegram_shape (path_parts (req_pathname req))
      \<and> \<not> github_shape (path_parts (req_pathname req))
    \<longrightarrow> handler rt opts req = (serveNotFound, []) \<and> status serveNotFound = 404)
   \<and> (req_method req \<noteq> ''POST''
      \<and> (length (path_parts (req_pathname req)) = 2 \<or> length (path_parts (req_pathname req)) = 3)
    \<longrightarrow> handler rt opts req = (serveMethodNotAllowed, []) \<and> status serveMethodNotAllowed = 405)
   \<and> (req_method req \<noteq> ''POST''
      \<and> (telegram_shape (path_parts (req_pathname req)) \<or> github_shape (path_parts (req_pathname req)))
    \<longrightarrow> handler rt opts req = (serveMethodNotAllowed, []))
   \<and> (req_method req \<noteq> ''POST''
      \<and> length (path_parts (req_pathname req)) \<noteq> 2 \<and> length (path_parts (req_pathname req)) \<noteq> 3
    \<longrightarrow> handler rt opts req = (serveNotFound, []))"
proof (intro conjI impI)
  assume "req_method req = ''POST'' \<and> \<not> telegram_shape (path_parts (req_pathname req))
      \<and> \<not> github_shape (path_parts (req_pathname req))"
  then show "handler rt opts req = (serveNotFound, [])"
    by (simp add: handler_def route_post_no_shape)
next
  show "status serveNotFound = 404" by (simp add: serveNotFound_def)
next
  assume "req_method req \<noteq> ''POST''
      \<and> (length (path_parts (req_pathname req)) = 2 \<or> length (path_parts (req_pathname req)) = 3)"
  then show "handler rt opts req = (serveMethodNotAllowed, [])"
    by (simp add: handler_def route_not_post_2_or_3)
next
  show "status serveMethodNotAllowed = 405" by (simp add: serveMethodNotAllowed_def)
next
  assume "req_method req \<noteq> ''POST''
      \<and> (telegram_shape (path_parts (req_pathname req)) \<or> github_shape (path_parts (req_pathname req)))"
  then have "req_method req \<noteq> ''POST''" 
    and "length (path_parts (req_pathname req)) = 2 \<or> length (path_parts (req_pathname req)) = 3"
    by (auto simp: telegram_shape_def github_shape_def)
  then show "handler rt opts req = (serveMethodNotAllowed, [])"
    by (simp add: handler_def route_not_post_2_or_3)
next
  assume "req_method req \<noteq> ''POST''
      \<and> length (path_parts (req_pathname req)) \<noteq> 2 \<and> length (path_parts (req_pathname req)) \<noteq> 3"
  then show "handler rt opts req = (serveNotFound, [])"
    by (simp add: handler_def route_not_post_other)
qed

lemma path_parts_foo_bar: "path_parts ''/foo/bar'' = [''foo'', ''bar'']"
  by (simp add: path_parts_def)

lemma path_parts_root: "path_parts ''/'' = []"
  by (simp add: path_parts_def)

lemma path_parts_telegram_example: "path_parts ''/telegramUpdate/hunter2hunter2'' = [''telegramUpdate'', ''hunter2hunter2'']"
  by (simp add: path_parts_def)

text \<open>A GET of \<open>/foo/bar\<close>, a path of neither shape, is answered 405 and not 404.\<close>

theorem route_get_other_shape_counterexample:
  "\<not> telegram_shape (path_parts (req_pathname (example_request ''GET'' ''/foo/bar'')))
   \<and> \<not> github_shape (path_parts (req_pathname (example_request ''GET'' ''/foo/bar'')))
   \<and> status (fst (handler example_runtime example_options (example_request ''GET'' ''/foo/bar''))) = 405"
  by (simp add: example_request_def path_parts_foo_bar telegram_shape_def github_shape_def
      handler_def route_def serveMethodNotAllowed_def)

theorem route_not_found_or_method_not_allowed_witness:
  "req_method (example_request ''POST'' ''/foo/bar'') = ''POST''
   \<and> \<not> telegram_shape (path_parts ''/foo/bar'') \<and> \<not> github_shape (path_parts ''/foo/bar'')
   \<and> handler example_runtime example_options (example_request ''POST'' ''/foo/bar'') = (serveNotFound, [])
   \<and> telegram_shape (path_parts ''/telegramUpdate/hunter2hunter2'')
   \<and> handler example_runtime example_options (example_request ''GET'' ''/telegramUpdate/hunter2hunter2'')
       = (serveMethodNotAllowed, [])
   \<and> handler example_runtime example_options (example_request ''GET'' ''/foo/bar'') = (serveMethodNotAllowed, [])
   \<and> handler example_runtime example_options (example_request ''GET'' ''/'') = (serveNotFound, [])"
  using route_not_found_or_method_not_allowed [of "example_request ''POST'' ''/foo/bar''" example_runtime example_options]
    route_not_found_or_method_not_allowed [of "example_request ''GET'' ''/telegramUpdate/hunter2hunter2''" example_runtime example_options]
    route_not_found_or_method_not_allowed [of "example_request ''GET'' ''/foo/bar''" example_runtime example_options]
    route_not_found_or_method_not_allowed [of "example_request ''GET'' ''/''" example_runtime example_options]
  by (simp add: example_request_def path_parts_foo_bar path_parts_root path_parts_telegram_example
      telegram_shape_def github_shape_def)

section \<open>Properties of the chat updates\<close>

lemma js_slice_whole: "js_slice s 0 (int (length s)) = s"
  by (simp add: js_slice_def Let_def)

lemma split_on_setup: "hd (split_on (CHR ''@'') (''/setup@'' @ botname)) = ''/setup''"
  by simp

text \<open>
  C6. For every update, presented with the configured secret, that holds a message whose
  text is \<open>/setup@<botname>\<close> with one entity spanning it, \<open>telegramUpdate\<close> returns an
  inline \<open>sendMessage\<close> reply to that chat whose text holds the URL
  \<open><baseURL>/github/<chatID>/<sign(chatID)>\<close> of the chat, with a token that verifies,
  and one inline button with the callback payload \<open>updateMessageSetupAdvanced\<close>; it
  makes no outbound call.
\<close>

theorem setup_command_reply:
  assumes "presented = telegramSecret opts"
    and "message data = Some m"
    and "msg_text m = Some (''/setup@'' @ botname)"
    and "entities m = Some [entity]"
    and "entity_offset entity = 0"
    and "entity_length entity = int (length (''/setup@'' @ botname))"
  shows "telegramUpdate rt opts presented data =
     (Inr (Some \<lparr>act_method = Some ''sendMessage'', act_chat_id = Some (chat_id (chat m)),
                 act_message_id = None,
                 act_text = Some (setup_text_before_url @ generateWebhookURL rt opts (chat_id (chat m))
                                  @ setup_text_after_url),
                 parse_mode = Some ''Markdown'', disable_web_page_preview = Some True,
                 disable_notification = None,
                 reply_markup = Some \<lparr>inline_keyboard =
                   [[\<lparr>button_text = ''Advanced Setup'',
                      callback_data = Some ''updateMessageSetupAdvanced''\<rparr>]]\<rparr>,
                 act_url = None\<rparr>), [])
   \<and> generateWebhookURL rt opts (chat_id (chat m)) =
       baseURL opts @ ''/github/'' @ number_toString rt (chat_id (chat m)) @ ''/''
         @ sign rt opts (chat_id (chat m))
   \<and> verifyWebhookURL rt opts (chat_id (chat m)) (sign rt opts (chat_id (chat m)))"
proof (intro conjI)
  have slice: "js_slice (''/setup@'' @ botname) 0 (int (length (''/setup@'' @ botname))) = ''/setup@'' @ botname"
    by (rule js_slice_whole)
  show "telegramUpdate rt opts presented data =
     (Inr (Some \<lparr>act_method = Some ''sendMessage'', act_chat_id = Some (chat_id (chat m)),
                 act_message_id = None,
                 act_text = Some (setup_text_before_url @ generateWebhookURL rt opts (chat_id (chat m))
                                  @ setup_text_after_url),
                 parse_mode = Some ''Markdown'', disable_web_page_preview = Some True,
                 disable_notification = None,
                 reply_markup = Some \<lparr>inline_keyboard =
                   [[\<lparr>button_text = ''Advanced Setup'',
                      callback_data = Some ''updateMessageSetupAdvanced''\<rparr>]]\<rparr>,
                 act_url = None\<rparr>), [])"
    using assms slice split_on_setup [of botname]
    by (simp add: telegramUpdate_def Let_def formatSetupMessage_def spread_def override_def
        empty_object_def advanced_setup_button_def del: split_on.simps)
  show "generateWebhookURL rt opts (chat_id (chat m)) =
       baseURL opts @ ''/github/'' @ number_toString rt (chat_id (chat m)) @ ''/''
         @ sign rt opts (chat_id (chat m))"
    by (rule generateWebhookURL_sign)
  show "verifyWebhookURL rt opts (chat_id (chat m)) (sign rt opts (chat_id (chat m)))"
    by (simp add: verifyWebhookURL_sign)
qed


theorem setup_command_reply_witness:
  "telegramUpdate example_runtime example_options ''hunter2hunter2''
      \<lparr>update_id = 1,
       message = Some (example_message (Some ''/setup@githubbot'') (Some [bot_command 0 16])),
       callback_query = None\<rparr>
   = (Inr (Some \<lparr>act_method = Some ''sendMessage'', act_chat_id = Some (Num 42),
                 act_message_id = None,
                 act_text = Some (setup_text_before_url
                                  @ ''https://bot.example/github/42/9ZOd0FvbG-osAB4A4jhzidYn7kc''
                                  @ setup_text_after_url),
                 parse_mode = Some ''Markdown'', disable_web_page_preview = Some True,
                 disable_notification = None,
                 reply_markup = Some \<lparr>inline_keyboard =
                   [[\<lparr>button_text = ''Advanced Setup'',
                      callback_data = Some ''updateMessageSetupAdvanced''\<rparr>]]\<rparr>,
                 act_url = None\<rparr>), [])
   \<and> verifyWebhookURL example_runtime example_options (Num 42) ''9ZOd0FvbG-osAB4A4jhzidYn7kc''"
  using setup_command_reply [of "''hunter2hunter2''" example_options
      "\<lparr>update_id = 1,
        message = Some (example_message (Some ''/setup@githubbot'') (Some [bot_command 0 16])),
        callback_query = None\<rparr>"
      "example_message (Some ''/setup@githubbot'') (Some [bot_command 0 16])"
      "''githubbot''" "bot_command 0 16" example_runtime]
  by (simp add: example_telegramSecret example_baseURL example_message_def bot_command_def
      example_chat_def sign_example_42 number_toString_42)

section \<open>Properties of the callback queries\<close>

lemma telegramApi_calls:
  "snd (telegramApi rt opts action data) = [(TELEGRAM_API_BASE_URL @ telegramToken opts @ ''/'' @ action, data)]"
  by (simp add: telegramApi_def Let_def split: fetch_result.splits)

lemma telegramApi_ok:
  "fetch rt (TELEGRAM_API_BASE_URL @ telegramToken opts @ ''/'' @ action) data = ResponseOk
   \<Longrightarrow> fst (telegramApi rt opts action data) = Inr ()"
  by (simp add: telegramApi_def Let_def)

lemma telegramApi_not_ok:
  "fetch rt (TELEGRAM_API_BASE_URL @ telegramToken opts @ ''/'' @ action) data \<noteq> ResponseOk
   \<Longrightarrow> \<exists>e. fst (telegramApi rt opts action data) = Inl e"
  by (simp add: telegramApi_def Let_def split: fetch_result.splits)

lemma formatSetupAdvancedMessage_eq:
  "formatSetupAdvancedMessage rt opts chatID =
     empty_object\<lparr>parse_mode := Some ''Markdown'',
                   act_text := Some (setup_text_before_url @ generateWebhookURL rt opts chatID
                                     @ setup_text_after_url @ advanced_text),
                   disable_web_page_preview := Some True\<rparr>"
  by (simp add: formatSetupAdvancedMessage_def formatSetupMessage_def Let_def empty_object_def)

lemma updateMessageSetupAdvanced_eq:
  "updateMessageSetupAdvanced rt opts m = telegramApi rt opts ''editMessageText'' (edit_body rt opts m)"
  by (simp add: updateMessageSetupAdvanced_def formatSetupAdvancedMessage_eq spread_def override_def
      empty_object_def edit_body_def)

lemma telegramUpdate_callback:
  assumes "presented = telegramSecret opts" and "message data = None"
    and "callback_query data = Some cq" and "cq_message cq = Some m"
  shows "telegramUpdate rt opts presented data =
     (case cq_data cq of
        None \<Rightarrow> (Inr None, [])
      | Some action \<Rightarrow>
          if action = [] then (Inr None, [])
          else if action = ''updateMessageSetupAdvanced'' then
            (case updateMessageSetupAdvanced rt opts m of
               (Inl e, calls) \<Rightarrow> (Inl e, calls)
             | (Inr _, calls) \<Rightarrow> (Inr (Some answerCallbackQuery), calls))
          else (Inr (Some answerCallbackQuery), []))"
  using assms by (simp add: telegramUpdate_def)

text \<open>
  C7, amended. For every update, presented with the configured secret, that holds no
  message and a callback query with an attached message: when the data is
  \<open>updateMessageSetupAdvanced\<close>, \<open>telegramUpdate\<close> makes exactly one outbound call,
  \<open>editMessageText\<close> for the chat and the \<open>message_id\<close> of that message; when the chat
  platform accepts the call it returns the inline reply \<open>{method: answerCallbackQuery}\<close>,
  and when the call fails the error is thrown and nothing is returned. For every other
  data that is not empty it makes no call and returns the same reply; for an empty or
  absent data it makes no call and returns nothing.
\<close>

theorem callback_query_edit_and_acknowledge:
  assumes "presented = telegramSecret opts" and "message data = None"
    and "callback_query data = Some cq" and "cq_message cq = Some m"
  shows "(cq_data cq = Some ''updateMessageSetupAdvanced'' \<longrightarrow>
            snd (telegramUpdate rt opts presented data) =
              [(TELEGRAM_API_BASE_URL @ telegramToken opts @ ''/editMessageText'', edit_body rt opts m)]
            \<and> (fetch rt (TELEGRAM_API_BASE_URL @ telegramToken opts @ ''/editMessageText'')
                   (edit_body rt opts m) = ResponseOk
                \<longrightarrow> fst (telegramUpdate rt opts presented data) = Inr (Some answerCallbackQuery))
            \<and> (fetch rt (TELEGRAM_API_BASE_URL @ telegramToken opts @ ''/editMessageText'')
                   (edit_body rt opts m) \<noteq> ResponseOk
                \<longrightarrow> (\<exists>e. fst (telegramUpdate rt opts presented data) = Inl e)))
       \<and> (cq_data cq = Some action \<and> action \<noteq> [] \<and> action \<noteq> ''updateMessageSetupAdvanced'' \<longrightarrow>
            telegramUpdate rt opts presented data = (Inr (Some answerCallbackQuery), []))
       \<and> (cq_data cq = Some [] \<or> cq_data cq = None \<longrightarrow>
            telegramUpdate rt opts presented data = (Inr None, []))"
proof -
  note eq = telegramUpdate_callback [OF assms, of rt]
  let ?api = "telegramApi rt opts ''editMessageText'' (edit_body rt opts m)"
  have calls: "snd ?api = [(TELEGRAM_API_BASE_URL @ telegramToken opts @ ''/editMessageText'', edit_body rt opts m)]"
    by (simp add: telegramApi_calls)
  have a: "snd (telegramUpdate rt opts presented data) =
              [(TELEGRAM_API_BASE_URL @ telegramToken opts @ ''/editMessageText'', edit_body rt opts m)]"
    if "cq_data cq = Some ''updateMessageSetupAdvanced''"
    using that calls by (cases ?api; cases "fst ?api") (simp_all add: eq updateMessageSetupAdvanced_eq)
  have b: "fst (telegramUpdate rt opts presented data) = Inr (Some answerCallbackQuery)"
    if "cq_data cq = Some ''updateMessageSetupAdvanced''"
      and "fetch rt (TELEGRAM_API_BASE_URL @ telegramToken opts @ ''/editMessageText'')
                   (edit_body rt opts m) = ResponseOk"
    using that telegramApi_ok [of rt opts "''editMessageText''" "edit_body rt opts m"]
    by (cases ?api) (simp_all add: eq updateMessageSetupAdvanced_eq)
  have c: "\<exists>e. fst (telegramUpdate rt opts presented data) = Inl e"
    if "cq_data cq = Some ''updateMessageSetupAdvanced''"
      and "fetch rt (TELEGRAM_API_BASE_URL @ telegramToken opts @ ''/editMessageText'')
                   (edit_body rt opts m) \<noteq> ResponseOk"
    using that telegramApi_not_ok [of rt opts "''editMessageText''" "edit_body rt opts m"]
    by (cases ?api) (auto simp: eq updateMessageSetupAdvanced_eq)
  have d: "telegramUpdate rt opts presented data = (Inr (Some answerCallbackQuery), [])"
    if "cq_data cq = Some action \<and> action \<noteq> [] \<and> action \<noteq> ''updateMessageSetupAdvanced''"
    using that by (simp add: eq)
  have e: "telegramUpdate rt opts presented data = (Inr None, [])"
    if "cq_data cq = Some [] \<or> cq_data cq = None"
    using that by (auto simp: eq)
  show ?thesis using a b c d e by blast
qed


lemma refusing_fetch: "fetch refusing_runtime url payload = ResponseNotOk ''Bad Request: message is not modified''"
  by (simp add: refusing_runtime_def)

lemma refused_edit_call:
  "telegramApi refusing_runtime example_options ''editMessageText'' payload
   = (Inl (Error ''Failure to perform API request: Bad Request: message is not modified''),
      [(''https://api.telegram.org/bot123:abc/editMessageText'', payload)])"
  by (simp add: telegramApi_def TELEGRAM_API_BASE_URL_def example_telegramToken refusing_fetch)

text \<open>
  When the chat platform refuses the edit (it does so for a text that does not change),
  the call is made and no reply is returned; and the empty data gets no reply.
\<close>

theorem callback_query_counterexample:
  "telegramUpdate refusing_runtime example_options ''hunter2hunter2''
      \<lparr>update_id = 2, message = None,
       callback_query = Some (example_callback (Some ''updateMessageSetupAdvanced''))\<rparr>
   = (Inl (Error ''Failure to perform API request: Bad Request: message is not modified''),
      [(''https://api.telegram.org/bot123:abc/editMessageText'',
        edit_body refusing_runtime example_options (example_message (Some ''Steps'') None))])
   \<and> telegramUpdate example_runtime example_options ''hunter2hunter2''
      \<lparr>update_id = 2, message = None, callback_query = Some (example_callback (Some []))\<rparr>
   = (Inr None, [])"
  by (simp add: telegramUpdate_def example_telegramSecret example_callback_def
      updateMessageSetupAdvanced_eq refused_edit_call)

theorem callback_query_edit_and_acknowledge_witness:
  "telegramUpdate example_runtime example_options ''hunter2hunter2''
      \<lparr>update_id = 2, message = None,
       callback_query = Some (example_callback (Some ''updateMessageSetupAdvanced''))\<rparr>
   = (Inr (Some answerCallbackQuery),
      [(''https://api.telegram.org/bot123:abc/editMessageText'',
        edit_body example_runtime example_options (example_message (Some ''Steps'') None))])
   \<and> act_chat_id (edit_body example_runtime example_options (example_message (Some ''Steps'') None))
       = Some (Num 42)
   \<and> act_message_id (edit_body example_runtime example_options (example_message (Some ''Steps'') None))
       = Some 7
   \<and> telegramUpdate example_runtime example_options ''hunter2hunter2''
      \<lparr>update_id = 2, message = None, callback_query = Some (example_callback (Some ''later''))\<rparr>
   = (Inr (Some answerCallbackQuery), [])
   \<and> telegramUpdate example_runtime example_options ''hunter2hunter2''
      \<lparr>update_id = 2, message = None, callback_query = Some (example_callback (Some []))\<rparr>
   = (Inr None, [])"
proof -
  let ?m = "example_message (Some ''Steps'') None"
  let ?u = "\<lambda>d. \<lparr>update_id = 2, message = None, callback_query = Some (example_callback d)\<rparr>"
  note inst = callback_query_edit_and_acknowledge
      [where presented = "''hunter2hunter2''" and opts = example_options and rt = example_runtime
         and m = ?m]
  have pre: "''hunter2hunter2'' = telegramSecret example_options" "message (?u d) = None"
    "callback_query (?u d) = Some (example_callback d)" "cq_message (example_callback d) = Some ?m"
    for d
    by (simp_all add: example_telegramSecret example_callback_def)
  have adv: "snd (telegramUpdate example_runtime example_options ''hunter2hunter2''
                 (?u (Some ''updateMessageSetupAdvanced'')))
             = [(''https://api.telegram.org/bot123:abc/editMessageText'',
                 edit_body example_runtime example_options ?m)]
           \<and> fst (telegramUpdate example_runtime example_options ''hunter2hunter2''
                 (?u (Some ''updateMessageSetupAdvanced''))) = Inr (Some answerCallbackQuery)"
    using inst [OF pre, of "Some ''updateMessageSetupAdvanced''"]
    by (simp add: example_callback_def example_fetch TELEGRAM_API_BASE_URL_def example_telegramToken)
  have other: "telegramUpdate example_runtime example_options ''hunter2hunter2'' (?u (Some ''later''))
       = (Inr (Some answerCallbackQuery), [])"
    using inst [OF pre, of "Some ''later''" "''later''"]
    by (simp add: example_callback_def)
  have empty: "telegramUpdate example_runtime example_options ''hunter2hunter2'' (?u (Some []))
       = (Inr None, [])"
    using inst [OF pre, of "Some []"]
    by (simp add: example_callback_def)
  show ?thesis
    using adv other empty
    by (simp add: prod_eq_iff edit_body_def example_message_def example_chat_def)
qed

section \<open>Messages with missing fields\<close>

lemma telegramUpdate_no_entities:
  assumes "presented = telegramSecret opts" and "message data = Some m"
    and "entities m = None \<or> entities m = Some []"
  shows "telegramUpdate rt opts presented data = (Inr None, [])"
  using assms by (auto simp: telegramUpdate_def)

lemma telegramUpdate_no_text:
  assumes "presented = telegramSecret opts" and "message data = Some m"
    and "entities m = Some (entity # others)" and "msg_text m = None"
  shows "telegramUpdate rt opts presented data = (Inl TypeError, [])"
  using assms by (simp add: telegramUpdate_def)

lemma route_telegram:
  assumes "req_method req = ''POST''" and "path_parts (req_pathname req) = [''telegramUpdate'', s]"
  shows "route rt opts req = serveTelegramWebhook rt opts req s"
  using assms by (simp add: route_def)

lemma path_parts_example_telegram:
  "path_parts ''/telegramUpdate/hunter2hunter2'' = [''telegramUpdate'', ''hunter2hunter2'']"
  by (simp add: path_parts_def)

lemma telegram_request_fields:
  "req_body (telegram_request pathname u) = TelegramJSON u"
  "req_method (telegram_request pathname u) = ''POST''"
  "req_pathname (telegram_request pathname u) = pathname"
  by (simp_all add: telegram_request_def)

text \<open>
  C8. An update, presented with the configured secret, whose message lacks required
  fields is to be ignored without a reply and without an error, the server answering
  200. So it is for a message without entities. A message with an entity and no text
  is not ignored, though: \<open>message.text.slice\<close> throws, and the server answers 500.
\<close>

theorem message_without_text_throws:
  "telegramUpdate example_runtime example_options ''hunter2hunter2''
      \<lparr>update_id = 3, message = Some (example_message None (Some [bot_command 0 6])),
       callback_query = None\<rparr>
   = (Inl TypeError, [])
   \<and> handler example_runtime example_options
        (telegram_request ''/telegramUpdate/hunter2hunter2''
           \<lparr>update_id = 3, message = Some (example_message None (Some [bot_command 0 6])),
            callback_query = None\<rparr>)
     = (serveInternalServerError, [])
   \<and> status serveInternalServerError = 500
   \<and> handler example_runtime example_options
        (telegram_request ''/telegramUpdate/hunter2hunter2''
           \<lparr>update_id = 3, message = Some (example_message (Some ''hello'') None),
            callback_query = None\<rparr>)
     = (\<lparr>status = 200, content_type = None, body = Plain ''Success''\<rparr>, [])"
proof -
  let ?bad = "\<lparr>update_id = 3, message = Some (example_message None (Some [bot_command 0 6])),
       callback_query = None\<rparr>"
  let ?good = "\<lparr>update_id = 3, message = Some (example_message (Some ''hello'') None),
            callback_query = None\<rparr>"
  have bad: "telegramUpdate example_runtime example_options ''hunter2hunter2'' ?bad = (Inl TypeError, [])"
    by (rule telegramUpdate_no_text [where m = "example_message None (Some [bot_command 0 6])"])
       (simp_all add: example_telegramSecret example_message_def)
  have good: "telegramUpdate example_runtime example_options ''hunter2hunter2'' ?good = (Inr None, [])"
    by (rule telegramUpdate_no_entities [where m = "example_message (Some ''hello'') None"])
       (simp_all add: example_telegramSecret example_message_def)
  have r: "route example_runtime example_options (telegram_request ''/telegramUpdate/hunter2hunter2'' u)
       = serveTelegramWebhook example_runtime example_options
           (telegram_request ''/telegramUpdate/hunter2hunter2'' u) ''hunter2hunter2''" for u
    by (rule route_telegram) (simp_all add: telegram_request_fields path_parts_example_telegram)
  have h1: "handler example_runtime example_options
        (telegram_request ''/telegramUpdate/hunter2hunter2'' ?bad) = (serveInternalServerError, [])"
    by (simp add: handler_def r serveTelegramWebhook_def telegram_request_fields bad
        message_startsWith_invalid_def)
  have h2: "handler example_runtime example_options
        (telegram_request ''/telegramUpdate/hunter2hunter2'' ?good)
      = (\<lparr>status = 200, content_type = None, body = Plain ''Success''\<rparr>, [])"
    by (simp add: handler_def r serveTelegramWebhook_def telegram_request_fields good respondIfReply_def)
  show ?thesis using bad h1 h2 by (simp add: serveInternalServerError_def)
qed

section \<open>An update with a message and a callback query\<close>

lemma spread_method:
  "act_method (spread a b) = override (act_method a) (act_method b)"
  by (simp add: spread_def)

text \<open>
  C9. For every update that holds both a message and a callback query, \<open>telegramUpdate\<close>
  handles the message only: the result is the one for the update without the callback
  query, no outbound call (so no edit) is made, and the reply is not the
  \<open>answerCallbackQuery\<close> acknowledgment.
\<close>

theorem message_takes_precedence:
  assumes "message data = Some m"
  shows "telegramUpdate rt opts presented data
           = telegramUpdate rt opts presented (data\<lparr>callback_query := None\<rparr>)
     \<and> snd (telegramUpdate rt opts presented data) = []
     \<and> fst (telegramUpdate rt opts presented data) \<noteq> Inr (Some answerCallbackQuery)"
proof (intro conjI)
  show "telegramUpdate rt opts presented data
           = telegramUpdate rt opts presented (data\<lparr>callback_query := None\<rparr>)"
    using assms by (simp add: telegramUpdate_def)
  show "snd (telegramUpdate rt opts presented data) = []"
    using assms by (simp add: telegramUpdate_def Let_def split: option.splits list.splits)
  have m: "act_method answerCallbackQuery = Some ''answerCallbackQuery''"
    by (simp add: answerCallbackQuery_def empty_object_def)
  have "act_method r = Some ''sendMessage''"
    if "fst (telegramUpdate rt opts presented data) = Inr (Some r)" for r
    using that assms
    by (auto simp: telegramUpdate_def Let_def spread_method override_def empty_object_def
        formatSetupMessage_def formatUnknownCommandMessage_def
        split: option.splits list.splits if_splits)
  then show "fst (telegramUpdate rt opts presented data) \<noteq> Inr (Some answerCallbackQuery)"
    using m by fastforce
qed

theorem message_takes_precedence_witness:
  "message update_with_both
     = Some (example_message (Some ''/setup@githubbot'') (Some [bot_command 0 16]))
   \<and> (telegramUpdate example_runtime example_options ''hunter2hunter2'' update_with_both
     = telegramUpdate example_runtime example_options ''hunter2hunter2''
         (update_with_both\<lparr>callback_query := None\<rparr>)
   \<and> snd (telegramUpdate example_runtime example_options ''hunter2hunter2'' update_with_both) = []
   \<and> fst (telegramUpdate example_runtime example_options ''hunter2hunter2'' update_with_both)
     \<noteq> Inr (Some answerCallbackQuery))"
proof -
  have m: "message update_with_both
     = Some (example_message (Some ''/setup@githubbot'') (Some [bot_command 0 16]))"
    by (simp add: update_with_both_def)
  from m message_takes_precedence [OF m, of example_runtime example_options "''hunter2hunter2''"]
  show ?thesis ..
qed

section \<open>The chat identifier of a repository webhook\<close>

lemma is_digit_not_sign: "is_digit c \<Longrightarrow> c \<noteq> CHR ''-'' \<and> c \<noteq> CHR ''+'' \<and> \<not> is_whitespace c \<and> c \<noteq> CHR ''/''"
  by (auto simp: is_digit_def is_whitespace_def)

lemma takeWhile_digits_append:
  assumes "list_all is_digit ds" and "sfx = [] \<or> \<not> is_digit (hd sfx)"
  shows "takeWhile is_digit (ds @ sfx) = ds"
proof -
  have "takeWhile is_digit sfx = []" using assms(2) by (cases sfx) auto
  moreover have "\<forall>x\<in>set ds. is_digit x" using assms(1) by (simp add: list_all_iff)
  ultimately show ?thesis by (simp add: takeWhile_append2)
qed

lemma parseInt_digits:
  assumes "ds \<noteq> []" and "list_all is_digit ds" and "sfx = [] \<or> \<not> is_digit (hd sfx)"
  shows "parseInt (ds @ sfx) = Num (digits_value ds)"
proof -
  obtain d r where ds: "ds = d # r" using assms(1) by (cases ds) auto
  have d: "is_digit d" using assms(2) ds by simp
  have "dropWhile is_whitespace (ds @ sfx) = ds @ sfx"
    using ds d is_digit_not_sign by simp
  moreover have "hd (ds @ sfx) \<noteq> CHR ''-''" "hd (ds @ sfx) \<noteq> CHR ''+''"
    using ds d is_digit_not_sign by auto
  ultimately show ?thesis
    using takeWhile_digits_append [OF assms(2,3)] assms(1)
    by (simp add: parseInt_def Let_def)
qed

lemma parseInt_NaN_iff: "(parseInt s = NaN) = (leading_digits s = [])"
  by (simp add: parseInt_def leading_digits_def Let_def)

lemma parseInt_no_digit_first:
  assumes "s = [] \<or> (\<not> is_digit (hd s) \<and> \<not> is_whitespace (hd s) \<and> hd s \<noteq> CHR ''-'' \<and> hd s \<noteq> CHR ''+'')"
  shows "parseInt s = NaN"
  using assms by (cases s) (auto simp: parseInt_def Let_def)

lemma serveGitHubWebhook_githubEvent:
  "req_body req = GitHubJSON data \<Longrightarrow>
   serveGitHubWebhook rt opts req (s, t) =
     (case githubEvent rt opts (parseInt s) t \<lparr>silent = (''silent'' \<in> set (req_search_names req))\<rparr>
             (x_github_event req) data of
        (Inl e, calls) \<Rightarrow> (Inl e, calls)
      | (Inr reply, calls) \<Rightarrow> (Inr (respondIfReply (Some reply)), calls))"
  by (simp add: serveGitHubWebhook_def Let_def)

text \<open>
  C10, amended. For every request \<open>POST /github/<s>/<t>\<close> the chat identifier passed to
  \<open>githubEvent\<close> is \<open>parseInt(s, 10)\<close>. What follows the leading digits of the segment
  is ignored: a request to \<open>/github/42abc/<t>\<close> is served as the one to
  \<open>/github/42/<t>\<close>. The identifier is \<open>NaN\<close> exactly when the segment has no digit
  after its leading white space and one optional sign; so it is for an empty segment
  and for one that begins with neither a digit, a sign nor white space.
\<close>

theorem github_route_parses_chat_identifier:
  "(req_method req = ''POST'' \<and> path_parts (req_pathname req) = [''github'', s, t]
      \<and> req_body req = GitHubJSON data
    \<longrightarrow> route rt opts req =
         (case githubEvent rt opts (parseInt s) t \<lparr>silent = (''silent'' \<in> set (req_search_names req))\<rparr>
                 (x_github_event req) data of
            (Inl e, calls) \<Rightarrow> (Inl e, calls)
          | (Inr reply, calls) \<Rightarrow> (Inr (respondIfReply (Some reply)), calls)))
   \<and> (ds \<noteq> [] \<and> list_all is_digit ds \<and> (sfx = [] \<or> \<not> is_digit (hd sfx))
    \<longrightarrow> parseInt (ds @ sfx) = parseInt ds \<and> parseInt ds = Num (digits_value ds))
   \<and> (ds \<noteq> [] \<and> list_all is_digit ds \<and> (sfx = [] \<or> \<not> is_digit (hd sfx))
       \<and> CHR ''/'' \<notin> set sfx \<and> CHR ''/'' \<notin> set t \<and> t \<noteq> []
    \<longrightarrow> route rt opts (req\<lparr>req_pathname := ''/github/'' @ ds @ sfx @ ''/'' @ t\<rparr>)
        = route rt opts (req\<lparr>req_pathname := ''/github/'' @ ds @ ''/'' @ t\<rparr>))
   \<and> (parseInt s = NaN) = (leading_digits s = [])
   \<and> (s = [] \<or> (\<not> is_digit (hd s) \<and> \<not> is_whitespace (hd s) \<and> hd s \<noteq> CHR ''-'' \<and> hd s \<noteq> CHR ''+'')
    \<longrightarrow> parseInt s = NaN)"
proof (intro conjI impI)
  assume "req_method req = ''POST'' \<and> path_parts (req_pathname req) = [''github'', s, t]
      \<and> req_body req = GitHubJSON data"
  then show "route rt opts req =
         (case githubEvent rt opts (parseInt s) t \<lparr>silent = (''silent'' \<in> set (req_search_names req))\<rparr>
                 (x_github_event req) data of
            (Inl e, calls) \<Rightarrow> (Inl e, calls)
          | (Inr reply, calls) \<Rightarrow> (Inr (respondIfReply (Some reply)), calls))"
    by (simp add: route_github serveGitHubWebhook_githubEvent)
next
  assume h: "ds \<noteq> [] \<and> list_all is_digit ds \<and> (sfx = [] \<or> \<not> is_digit (hd sfx))"
  then have a: "parseInt (ds @ sfx) = Num (digits_value ds)"
    by (simp add: parseInt_digits)
  have b: "parseInt (ds @ []) = Num (digits_value ds)"
    using h by (intro parseInt_digits) simp_all
  show "parseInt (ds @ sfx) = parseInt ds" using a b by simp
  show "parseInt ds = Num (digits_value ds)" using b by simp
next
  assume h: "ds \<noteq> [] \<and> list_all is_digit ds \<and> (sfx = [] \<or> \<not> is_digit (hd sfx))
       \<and> CHR ''/'' \<notin> set sfx \<and> CHR ''/'' \<notin> set t \<and> t \<noteq> []"
  have nosl: "CHR ''/'' \<notin> set ds"
    using h is_digit_not_sign by (auto simp: list_all_iff)
  have p1: "path_parts (''/github/'' @ (ds @ sfx) @ ''/'' @ t) = [''github'', ds @ sfx, t]"
    using h nosl by (intro path_parts_github) simp_all
  have p2: "path_parts (''/github/'' @ ds @ ''/'' @ t) = [''github'', ds, t]"
    using h nosl by (intro path_parts_github) simp_all
  have a: "parseInt (ds @ sfx) = Num (digits_value ds)"
    using h by (simp add: parseInt_digits)
  have b: "parseInt (ds @ []) = Num (digits_value ds)"
    using h by (intro parseInt_digits) simp_all
  show "route rt opts (req\<lparr>req_pathname := ''/github/'' @ ds @ sfx @ ''/'' @ t\<rparr>)
        = route rt opts (req\<lparr>req_pathname := ''/github/'' @ ds @ ''/'' @ t\<rparr>)"
    using p1 p2 a b by (cases "req_body req") (simp_all add: route_def Let_def serveGitHubWebhook_def)
next
  show "(parseInt s = NaN) = (leading_digits s = [])" by (rule parseInt_NaN_iff)
next
  assume "s = [] \<or> (\<not> is_digit (hd s) \<and> \<not> is_whitespace (hd s) \<and> hd s \<noteq> CHR ''-'' \<and> hd s \<noteq> CHR ''+'')"
  then show "parseInt s = NaN" by (rule parseInt_no_digit_first)
qed

text \<open>
  The segment \<open>-42\<close> does not begin with a digit, and its chat identifier is \<open>-42\<close>,
  not \<open>NaN\<close>.
\<close>

theorem parseInt_sign_counterexample:
  "\<not> is_digit (hd ''-42'') \<and> parseInt ''-42'' = Num (- 42) \<and> parseInt ''-42'' \<noteq> NaN"
  by (simp add: parseInt_minus_42 is_digit_def)


lemma githubEvent_example_push:
  "githubEvent example_runtime example_options (Num 42) ''9ZOd0FvbG-osAB4A4jhzidYn7kc''
      \<lparr>silent = False\<rparr> (Some ''push'') (PushData push_one_commit)
   = (Inr empty_object,
      [(''https://api.telegram.org/bot123:abc/sendMessage'',
        empty_object\<lparr>act_chat_id := Some (Num 42), disable_notification := Some False,
                      parse_mode := Some ''Markdown'', act_text := Some (format_push push_one_commit),
                      disable_web_page_preview := Some True\<rparr>)])"
  by (simp add: githubEvent_def verifyWebhookURL_sign sign_example_42 formatEventMessage_def
      githubEventFormatters_def property_key_def telegramApi_def TELEGRAM_API_BASE_URL_def
      example_fetch example_telegramToken spread_def override_def empty_object_def)

theorem github_route_parses_chat_identifier_witness:
  "parseInt ''42abc'' = Num 42 \<and> parseInt ''42'' = Num 42
   \<and> route example_runtime example_options
        (example_request ''POST'' ''/github/42abc/9ZOd0FvbG-osAB4A4jhzidYn7kc'')
     = route example_runtime example_options
        (example_request ''POST'' ''/github/42/9ZOd0FvbG-osAB4A4jhzidYn7kc'')
   \<and> map (\<lambda>call. (fst call, act_chat_id (snd call)))
         (snd (route example_runtime example_options
                 (example_request ''POST'' ''/github/42/9ZOd0FvbG-osAB4A4jhzidYn7kc'')))
     = [(''https://api.telegram.org/bot123:abc/sendMessage'', Some (Num 42))]
   \<and> parseInt ''abc'' = NaN \<and> leading_digits ''abc'' = []"
proof -
  note inst = github_route_parses_chat_identifier
      [of "example_request ''POST'' ''/github/42/9ZOd0FvbG-osAB4A4jhzidYn7kc''" "''42''"
          "''9ZOd0FvbG-osAB4A4jhzidYn7kc''" "PushData push_one_commit"
          example_runtime example_options "''42''" "''abc''"]
  have digits: "''42'' \<noteq> [] \<and> list_all is_digit ''42'' \<and> (''abc'' = [] \<or> \<not> is_digit (hd ''abc''))"
    by (simp add: is_digit_def)
  have val: "digits_value ''42'' = 42"
    by (simp add: digits_value_def digit_value_def)
  have parts: "path_parts ''/github/42/9ZOd0FvbG-osAB4A4jhzidYn7kc'' = [''github'', ''42'', ''9ZOd0FvbG-osAB4A4jhzidYn7kc'']"
    by (simp add: path_parts_def)
  have p: "parseInt ''42abc'' = Num 42 \<and> parseInt ''42'' = Num 42"
    using inst digits val by simp
  have r: "route example_runtime example_options
        (example_request ''POST'' ''/github/42abc/9ZOd0FvbG-osAB4A4jhzidYn7kc'')
     = route example_runtime example_options
        (example_request ''POST'' ''/github/42/9ZOd0FvbG-osAB4A4jhzidYn7kc'')"
    using inst digits by (simp add: example_request_def)
  have c: "route example_runtime example_options
        (example_request ''POST'' ''/github/42/9ZOd0FvbG-osAB4A4jhzidYn7kc'')
     = (case githubEvent example_runtime example_options (parseInt ''42'') ''9ZOd0FvbG-osAB4A4jhzidYn7kc''
               \<lparr>silent = False\<rparr> (Some ''push'') (PushData push_one_commit) of
          (Inl e, calls) \<Rightarrow> (Inl e, calls)
        | (Inr reply, calls) \<Rightarrow> (Inr (respondIfReply (Some reply)), calls))"
    using inst parts by (simp add: example_request_def)
  have n: "parseInt ''abc'' = NaN \<and> leading_digits ''abc'' = []"
    using github_route_parses_chat_identifier
      [where s = "''abc''", THEN conjunct2, THEN conjunct2, THEN conjunct2]
    by (auto simp: is_digit_def is_whitespace_def)
  show ?thesis
    using p r n by (simp add: c githubEvent_example_push empty_object_def)
qed

end
